theory Spec2Isabelle
  imports Main "HOL-Library.Multiset" "HOL-Library.Product_Lexorder"
begin

section \<open>Values of the host language\<close>

text \<open>
  The handlers of \<^verbatim>\<open>languageFeatures.ts\<close> are asynchronous functions. A promise is
  modelled by its outcome: \<open>Inl e\<close> when it rejects (or when the code throws), \<open>Inr v\<close>
  when it fulfils with \<open>v\<close>. \<open>await\<close> continues with the value and passes a rejection on,
  which is all the source does with one: the file holds no \<^verbatim>\<open>try\<close>, \<^verbatim>\<open>catch\<close> or
  \<^verbatim>\<open>finally\<close>. Every promise of a collaborator (an engine, the resolver, the client) is
  taken to settle.
\<close>

datatype error =
    EngineFailure      \<comment> \<open>a call into a language service threw or rejected\<close>
  | ResolverFailure    \<comment> \<open>looking up or awaiting a project rejected\<close>
  | ClientFailure      \<comment> \<open>a request sent to the client was rejected\<close>
  | TypeError          \<comment> \<open>the run-time error of the host language\<close>

type_synonym 'a promise = "error + 'a"

definition await :: "'a promise \<Rightarrow> ('a \<Rightarrow> 'b promise) \<Rightarrow> 'b promise" where
  "await p k = (case p of Inl e \<Rightarrow> Inl e | Inr v \<Rightarrow> k v)"

text \<open>
  A value of type \<^verbatim>\<open>T | null | undefined\<close>, and the operator \<^verbatim>\<open>??\<close>. Every handler
  answers with such a value; \<open>Undefined\<close> and \<open>Null\<close> are the absent results.
\<close>

datatype 'a nullable = Undefined | Null | Value 'a

definition nullish_or :: "'a nullable \<Rightarrow> 'a \<Rightarrow> 'a" where
  "nullish_or x d = (case x of Value v \<Rightarrow> v | _ \<Rightarrow> d)"

text \<open>
  Free-form payloads (the \<^verbatim>\<open>data\<close> field of an item, typed \<^verbatim>\<open>any\<close>) are values of
  the host language. An object is its list of own properties; an array carries its
  elements and the named properties assigned to it. Numbers are kept as integers.
\<close>

datatype json =
    JUndefined
  | JNull
  | JBool bool
  | JNum int
  | JStr string
  | JArr "json list" "(string \<times> json) list"
  | JObj "(string \<times> json) list"

fun truthy :: "json \<Rightarrow> bool" where
  "truthy JUndefined = False"
| "truthy JNull = False"
| "truthy (JBool b) = b"
| "truthy (JNum n) = (n \<noteq> 0)"
| "truthy (JStr s) = (s \<noteq> [])"
| "truthy (JArr xs ps) = True"
| "truthy (JObj ps) = True"

text \<open>\<^verbatim>\<open>typeof v === 'object'\<close>: true of objects, arrays and \<^verbatim>\<open>null\<close>.\<close>

fun typeof_object :: "json \<Rightarrow> bool" where
  "typeof_object JNull = True"
| "typeof_object (JArr xs ps) = True"
| "typeof_object (JObj ps) = True"
| "typeof_object v = False"

fun lookup :: "(string \<times> json) list \<Rightarrow> string \<Rightarrow> json" where
  "lookup [] k = JUndefined"
| "lookup ((k', v) # ps) k = (if k' = k then v else lookup ps k)"

fun assign :: "(string \<times> json) list \<Rightarrow> string \<Rightarrow> json \<Rightarrow> (string \<times> json) list" where
  "assign [] k v = [(k, v)]"
| "assign ((k', v') # ps) k v = (if k' = k then (k, v) # ps else (k', v') # assign ps k v)"

text \<open>
  \<^verbatim>\<open>v?.k\<close> for a key that no primitive and no array defines by itself (the source reads
  \<^verbatim>\<open>uri\<close> and \<^verbatim>\<open>__uri\<close>): \<^verbatim>\<open>undefined\<close> on \<^verbatim>\<open>null\<close>, \<^verbatim>\<open>undefined\<close> and primitives.
\<close>

fun get_optional :: "json \<Rightarrow> string \<Rightarrow> json" where
  "get_optional (JObj ps) k = lookup ps k"
| "get_optional (JArr xs ps) k = lookup ps k"
| "get_optional v k = JUndefined"

text \<open>
  \<^verbatim>\<open>v.k = x\<close> in a module (strict mode): a \<^verbatim>\<open>TypeError\<close> on \<^verbatim>\<open>null\<close>, \<^verbatim>\<open>undefined\<close>
  and on primitives.
\<close>

fun set_property :: "json \<Rightarrow> string \<Rightarrow> json \<Rightarrow> json promise" where
  "set_property (JObj ps) k x = Inr (JObj (assign ps k x))"
| "set_property (JArr xs ps) k x = Inr (JArr xs (assign ps k x))"
| "set_property v k x = Inl TypeError"

section \<open>Semantic tokens\<close>

text \<open>
  A \<^verbatim>\<open>vue.SemanticToken\<close> is the tuple (line, character, length, token type, token
  modifiers).
\<close>

type_synonym SemanticToken = "int \<times> int \<times> int \<times> int \<times> int"

definition tok_line :: "SemanticToken \<Rightarrow> int" where
  "tok_line t = fst t"

definition tok_char :: "SemanticToken \<Rightarrow> int" where
  "tok_char t = fst (snd t)"

text \<open>The comparator handed to \<^verbatim>\<open>tokens.sort\<close> in \<^verbatim>\<open>buildTokens\<close>.\<close>

definition compareTokens :: "SemanticToken \<Rightarrow> SemanticToken \<Rightarrow> int" where
  "compareTokens a b =
     (if tok_line a - tok_line b = 0 then tok_char a - tok_char b else tok_line a - tok_line b)"

text \<open>
  \<^verbatim>\<open>Array.prototype.sort\<close> with a comparator is a stable sort: elements that compare
  equal keep their order. It is modelled by stable insertion of each element, from the
  last to the first.
\<close>

fun insert_by :: "('a \<Rightarrow> 'a \<Rightarrow> int) \<Rightarrow> 'a \<Rightarrow> 'a list \<Rightarrow> 'a list" where
  "insert_by c x [] = [x]"
| "insert_by c x (y # ys) = (if c x y \<le> 0 then x # y # ys else y # insert_by c x ys)"

fun array_sort :: "('a \<Rightarrow> 'a \<Rightarrow> int) \<Rightarrow> 'a list \<Rightarrow> 'a list" where
  "array_sort c [] = []"
| "array_sort c (x # xs) = insert_by c x (array_sort c xs)"

text \<open>
  \<^verbatim>\<open>SemanticTokensBuilder\<close> of the protocol library: \<^verbatim>\<open>push\<close> appends five numbers, the
  line relative to the previous token and the character relative to it when the line is
  the same; the first token is pushed as it is. \<^verbatim>\<open>build\<close> returns the numbers (with a
  result id the library takes from the clock, which is no part of the encoding and is
  left out).
\<close>

record SemanticTokensBuilder =
  prevLine :: int
  prevChar :: int
  builder_data :: "int list"
  dataLen :: nat

definition new_builder :: SemanticTokensBuilder where
  "new_builder = \<lparr>prevLine = 0, prevChar = 0, builder_data = [], dataLen = 0\<rparr>"

fun push :: "SemanticTokensBuilder \<Rightarrow> SemanticToken \<Rightarrow> SemanticTokensBuilder" where
  "push b (line, char, len, tokenType, tokenModifiers) =
     (let pushLine = (if dataLen b > 0 then line - prevLine b else line);
          pushChar = (if dataLen b > 0 \<and> pushLine = 0 then char - prevChar b else char)
      in \<lparr>prevLine = line, prevChar = char,
          builder_data = builder_data b @ [pushLine, pushChar, len, tokenType, tokenModifiers],
          dataLen = dataLen b + 5\<rparr>)"

definition build :: "SemanticTokensBuilder \<Rightarrow> int list" where
  "build b = builder_data b"

definition buildTokens :: "SemanticToken list \<Rightarrow> int list" where
  "buildTokens tokens =
     (let sortedTokens = array_sort compareTokens tokens
      in build (foldl push new_builder sortedTokens))"

text \<open>
  The encoding as the specification words it: each tuple relative to the previous one,
  as (line delta, column delta or the column itself on a new line, length, type,
  modifiers), starting from line 0 and column 0.
\<close>

fun delta_encode :: "int \<Rightarrow> int \<Rightarrow> SemanticToken list \<Rightarrow> int list" where
  "delta_encode pl pc [] = []"
| "delta_encode pl pc ((l, c, len, ty, mods) # ts) =
     [l - pl, (if l = pl then c - pc else c), len, ty, mods] @ delta_encode l c ts"

definition token_key :: "SemanticToken \<Rightarrow> int \<times> int" where
  "token_key t = (tok_line t, tok_char t)"

section \<open>Protocol data\<close>

type_synonym position = "nat \<times> nat"
type_synonym lsp_range = "position \<times> position"

text \<open>
  The text edit of a completion item is a \<^verbatim>\<open>TextEdit\<close> (range, newText) or an
  \<^verbatim>\<open>InsertReplaceEdit\<close> (newText, insert, replace); \<^verbatim>\<open>InsertReplaceEdit.is\<close> tells them
  apart.
\<close>

datatype edit =
    TextEdit lsp_range string
  | InsertReplaceEdit string lsp_range lsp_range

text \<open>
  An item that travels to the client and comes back for its resolve request: the
  free-form \<open>data\<close> field and \<open>rest\<close>, the fields no handler reads or writes. Code lenses
  and code actions are such items; a completion item has its text edit beside, a
  call-hierarchy item its own URI.
\<close>

record Item =
  rest :: json
  data :: json

record CompletionItem = Item +
  textEdit :: "edit option"

record CallHierarchyItem = Item +
  item_uri :: string

record CompletionList =
  isIncomplete :: bool
  items :: "CompletionItem list"

record Selection =
  sel_uri :: string
  sel_position :: position

record FileRename =
  oldUri :: string
  newUri :: string

record TextDocumentIdentifier =
  doc_uri :: string
  version :: "int option"

text \<open>
  An entry of \<^verbatim>\<open>documentChanges\<close>: a \<^verbatim>\<open>TextDocumentEdit\<close> (the document and its edits)
  or a create, rename or delete operation; \<^verbatim>\<open>TextDocumentEdit.is\<close> tells them apart.
\<close>

datatype documentChange =
    TextDocumentEdit TextDocumentIdentifier json
  | ResourceOperation json

record WorkspaceEdit =
  changes :: json
  documentChanges :: "documentChange list option"

section \<open>The collaborators\<close>

text \<open>
  \<^verbatim>\<open>vue.LanguageService\<close>, the engine: each capability is a function of its arguments that
  fulfils with a result (possibly \<^verbatim>\<open>undefined\<close> or \<^verbatim>\<open>null\<close>) or rejects. Results the
  handlers pass through untouched are kept as \<open>json\<close>. \<open>getSemanticTokens\<close> yields the
  token lists it hands to its progress callback and then its result.
\<close>

record CallHierarchy =
  doPrepare :: "string \<Rightarrow> position \<Rightarrow> CallHierarchyItem list nullable promise"
  getIncomingCalls :: "CallHierarchyItem \<Rightarrow> json list nullable promise"
  getOutgoingCalls :: "CallHierarchyItem \<Rightarrow> json list nullable promise"

record LanguageService =
  doComplete :: "string \<Rightarrow> position \<Rightarrow> json \<Rightarrow> CompletionList nullable promise"
  doCompletionResolve :: "CompletionItem \<Rightarrow> position nullable \<Rightarrow> CompletionItem nullable promise"
  doHover :: "string \<Rightarrow> position \<Rightarrow> json nullable promise"
  getSignatureHelp :: "string \<Rightarrow> position \<Rightarrow> json \<Rightarrow> json nullable promise"
  prepareRename :: "string \<Rightarrow> position \<Rightarrow> json nullable promise"
  doRename :: "string \<Rightarrow> position \<Rightarrow> string \<Rightarrow> WorkspaceEdit nullable promise"
  doCodeLens :: "string \<Rightarrow> Item list nullable promise"
  doCodeLensResolve :: "Item \<Rightarrow> Item nullable promise"
  doExecuteCommand :: "string \<Rightarrow> json list \<Rightarrow> json nullable promise"
  doCodeActions :: "string \<Rightarrow> lsp_range \<Rightarrow> json \<Rightarrow> Item list nullable promise"
  doCodeActionResolve :: "Item \<Rightarrow> Item nullable promise"
  findReferences :: "string \<Rightarrow> position \<Rightarrow> json nullable promise"
  findImplementations :: "string \<Rightarrow> position \<Rightarrow> json nullable promise"
  findDefinition :: "string \<Rightarrow> position \<Rightarrow> json nullable promise"
  findTypeDefinition :: "string \<Rightarrow> position \<Rightarrow> json nullable promise"
  findDocumentHighlights :: "string \<Rightarrow> position \<Rightarrow> json nullable promise"
  findDocumentLinks :: "string \<Rightarrow> json nullable promise"
  findWorkspaceSymbols :: "string \<Rightarrow> json list promise"
  callHierarchy :: CallHierarchy
  getSemanticTokens ::
    "string \<Rightarrow> lsp_range option \<Rightarrow> (SemanticToken list list \<times> SemanticToken list nullable) promise"
  getInlayHints :: "string \<Rightarrow> lsp_range \<Rightarrow> json nullable promise"
  getEditsForFileRename :: "string \<Rightarrow> string \<Rightarrow> WorkspaceEdit nullable promise"
  doAutoInsert :: "string \<Rightarrow> position \<Rightarrow> json \<Rightarrow> json nullable promise"

record Project =
  project_getLanguageService :: LanguageService

record Workspace =
  workspace_projects :: "Project promise list"
  getInferredProject :: "Project promise"

text \<open>
  What \<^verbatim>\<open>register\<close> closes over. \<open>getProject\<close> is \<^verbatim>\<open>projects.getProject(uri)\<close> followed
  by \<^verbatim>\<open>?.project\<close>; it is keyed by the value it is called with, which for a resolve
  request is whatever sits under the \<^verbatim>\<open>uri\<close> key of the item's data.
  \<open>insertReplaceSupport\<close> is the client capability, \<open>None\<close> when undeclared.
  \<open>sendSelectionRequest\<close> is the outcome of asking the client for the editor selection,
  \<open>getConfiguration\<close> and \<open>applyEdit\<close> those of the two workspace requests.
  \<open>getScriptText\<close>, \<open>getDocumentVersion\<close> (\<^verbatim>\<open>getDocumentSafely(documents, uri)?.version\<close>),
  \<open>mergeWorkspaceEdits\<close> and the two command names come from modules outside this file
  and are parameters. \<open>settles_first\<close> stands for the timing of the promises that run
  side by side: of several rejections it names the one that settles first.
\<close>

record Env =
  getProject :: "json \<Rightarrow> Project option promise"
  workspaces :: "Workspace list"
  insertReplaceSupport :: "bool option"
  getDocumentSelectionRequest :: bool
  sendSelectionRequest :: "Selection nullable promise"
  getConfiguration :: "string \<Rightarrow> string nullable promise"
  applyEdit :: "WorkspaceEdit \<Rightarrow> unit promise"
  getScriptText :: "string \<Rightarrow> string option"
  getDocumentVersion :: "string \<Rightarrow> int option"
  mergeWorkspaceEdits :: "WorkspaceEdit \<Rightarrow> WorkspaceEdit list \<Rightarrow> WorkspaceEdit"
  executePluginCommand :: string
  convertTagNameCasingCommand :: string
  settles_first :: "error list \<Rightarrow> error"

section \<open>The dispatcher\<close>

definition getLanguageService :: "Env \<Rightarrow> json \<Rightarrow> LanguageService option promise" where
  "getLanguageService env u =
     await (getProject env u) (\<lambda>project. Inr (map_option project_getLanguageService project))"

definition worker :: "Env \<Rightarrow> json \<Rightarrow> (LanguageService \<Rightarrow> 'a nullable promise) \<Rightarrow> 'a nullable promise" where
  "worker env u cb =
     await (getLanguageService env u)
       (\<lambda>vueLs. case vueLs of Some ls \<Rightarrow> cb ls | None \<Rightarrow> Inr Undefined)"

text \<open>A \<^verbatim>\<open>for ... of\<close> loop whose body rewrites the element and may throw.\<close>

fun for_each :: "('a \<Rightarrow> 'a promise) \<Rightarrow> 'a list \<Rightarrow> 'a list promise" where
  "for_each body [] = Inr []"
| "for_each body (x # xs) =
     await (body x) (\<lambda>y. await (for_each body xs) (\<lambda>ys. Inr (y # ys)))"

subsection \<open>Completion\<close>

text \<open>The body of the loop over \<^verbatim>\<open>list.items\<close> in \<^verbatim>\<open>onCompletion\<close>.\<close>

definition replaceInsertEdit :: "CompletionItem \<Rightarrow> CompletionItem" where
  "replaceInsertEdit item =
     (case textEdit item of
        Some (InsertReplaceEdit newText ins rep) \<Rightarrow> item\<lparr>textEdit := Some (TextEdit ins newText)\<rparr>
      | _ \<Rightarrow> item)"

fun downgrade_items :: "CompletionItem list \<Rightarrow> CompletionItem list" where
  "downgrade_items [] = []"
| "downgrade_items (item # its) = replaceInsertEdit item # downgrade_items its"

definition onCompletion :: "Env \<Rightarrow> string \<Rightarrow> position \<Rightarrow> json \<Rightarrow> CompletionList nullable promise" where
  "onCompletion env u pos ctx =
     worker env (JStr u) (\<lambda>vueLs.
       await (doComplete vueLs u pos ctx) (\<lambda>list.
         let support = (case insertReplaceSupport env of Some b \<Rightarrow> b | None \<Rightarrow> False)
         in case list of
              Value l \<Rightarrow>
                if \<not> support then Inr (Value (l\<lparr>items := downgrade_items (items l)\<rparr>))
                else Inr list
            | _ \<Rightarrow> Inr list))"

text \<open>\<^verbatim>\<open>String.prototype.toLowerCase\<close>, on the ASCII letters.\<close>

definition toLowerCase :: "string \<Rightarrow> string" where
  "toLowerCase s =
     map (\<lambda>c. let n = (of_char c :: nat) in if 65 \<le> n \<and> n \<le> 90 then char_of (n + 32) else c) s"

text \<open>
  \<^verbatim>\<open>v.toLowerCase()\<close> on a value that need not be a string. In the resolve handlers
  \<^verbatim>\<open>??\<close> is applied to what the engine's call settles to; applying it to the promise
  itself, as the callback does when the engine returns one, leaves the promise as it
  is, and the handler applies it again to the awaited value.
\<close>

fun call_toLowerCase :: "json \<Rightarrow> string promise" where
  "call_toLowerCase (JStr s) = Inr (toLowerCase s)"
| "call_toLowerCase v = Inl TypeError"

definition onCompletionResolve :: "Env \<Rightarrow> CompletionItem \<Rightarrow> CompletionItem nullable promise" where
  "onCompletionResolve env item =
     (let u = get_optional (data item) ''uri''
      in if \<not> truthy u then Inr (Value item)
         else
           await (if getDocumentSelectionRequest env then sendSelectionRequest env else Inr Undefined)
             (\<lambda>activeSel.
               await (call_toLowerCase u) (\<lambda>lowered.
                 let newPosition =
                       (case activeSel of
                          Value sel \<Rightarrow>
                            if toLowerCase (sel_uri sel) = lowered then Value (sel_position sel)
                            else Undefined
                        | _ \<Rightarrow> Undefined)
                 in await
                      (worker env u (\<lambda>vueLs.
                         await (doCompletionResolve vueLs item newPosition)
                           (\<lambda>r. Inr (Value (nullish_or r item)))))
                      (\<lambda>r. Inr (Value (nullish_or r item))))))"

subsection \<open>Requests passed to the engine as they are\<close>

definition onHover :: "Env \<Rightarrow> string \<Rightarrow> position \<Rightarrow> json nullable promise" where
  "onHover env u pos = worker env (JStr u) (\<lambda>vueLs. doHover vueLs u pos)"

definition onSignatureHelp :: "Env \<Rightarrow> string \<Rightarrow> position \<Rightarrow> json \<Rightarrow> json nullable promise" where
  "onSignatureHelp env u pos ctx = worker env (JStr u) (\<lambda>vueLs. getSignatureHelp vueLs u pos ctx)"

definition onPrepareRename :: "Env \<Rightarrow> string \<Rightarrow> position \<Rightarrow> json nullable promise" where
  "onPrepareRename env u pos = worker env (JStr u) (\<lambda>vueLs. prepareRename vueLs u pos)"

definition onRenameRequest :: "Env \<Rightarrow> string \<Rightarrow> position \<Rightarrow> string \<Rightarrow> WorkspaceEdit nullable promise" where
  "onRenameRequest env u pos newName = worker env (JStr u) (\<lambda>vueLs. doRename vueLs u pos newName)"

definition onCodeLens :: "Env \<Rightarrow> string \<Rightarrow> Item list nullable promise" where
  "onCodeLens env u = worker env (JStr u) (\<lambda>vueLs. doCodeLens vueLs u)"

definition onReferences :: "Env \<Rightarrow> string \<Rightarrow> position \<Rightarrow> json nullable promise" where
  "onReferences env u pos = worker env (JStr u) (\<lambda>vueLs. findReferences vueLs u pos)"

definition onImplementation :: "Env \<Rightarrow> string \<Rightarrow> position \<Rightarrow> json nullable promise" where
  "onImplementation env u pos = worker env (JStr u) (\<lambda>vueLs. findImplementations vueLs u pos)"

definition onDefinition :: "Env \<Rightarrow> string \<Rightarrow> position \<Rightarrow> json nullable promise" where
  "onDefinition env u pos = worker env (JStr u) (\<lambda>vueLs. findDefinition vueLs u pos)"

definition onTypeDefinition :: "Env \<Rightarrow> string \<Rightarrow> position \<Rightarrow> json nullable promise" where
  "onTypeDefinition env u pos = worker env (JStr u) (\<lambda>vueLs. findTypeDefinition vueLs u pos)"

definition onDocumentHighlight :: "Env \<Rightarrow> string \<Rightarrow> position \<Rightarrow> json nullable promise" where
  "onDocumentHighlight env u pos = worker env (JStr u) (\<lambda>vueLs. findDocumentHighlights vueLs u pos)"

definition onDocumentLinks :: "Env \<Rightarrow> string \<Rightarrow> json nullable promise" where
  "onDocumentLinks env u = worker env (JStr u) (\<lambda>vueLs. findDocumentLinks vueLs u)"

definition onInlayHint :: "Env \<Rightarrow> string \<Rightarrow> lsp_range \<Rightarrow> json nullable promise" where
  "onInlayHint env u rng = worker env (JStr u) (\<lambda>vueLs. getInlayHints vueLs u rng)"

definition onAutoInsert :: "Env \<Rightarrow> string \<Rightarrow> position \<Rightarrow> json \<Rightarrow> json nullable promise" where
  "onAutoInsert env u pos opts = worker env (JStr u) (\<lambda>vueLs. doAutoInsert vueLs u pos opts)"

subsection \<open>Code lenses, commands and code actions\<close>

definition onCodeLensResolve :: "Env \<Rightarrow> Item \<Rightarrow> Item nullable promise" where
  "onCodeLensResolve env codeLens =
     (let u = get_optional (data codeLens) ''uri''
      in if \<not> truthy u then Inr (Value codeLens)
         else await
                (worker env u (\<lambda>vueLs.
                   await (doCodeLensResolve vueLs codeLens) (\<lambda>r. Inr (Value (nullish_or r codeLens)))))
                (\<lambda>r. Inr (Value (nullish_or r codeLens))))"

text \<open>\<^verbatim>\<open>args[i]\<close> on an array.\<close>

fun element :: "json list \<Rightarrow> nat \<Rightarrow> json" where
  "element [] i = JUndefined"
| "element (x # xs) 0 = x"
| "element (x # xs) (Suc i) = element xs i"

text \<open>\<^verbatim>\<open>vscode.Command.create(title, command, ...args)\<close> of the protocol library.\<close>

definition Command_create :: "string \<Rightarrow> string \<Rightarrow> json list \<Rightarrow> json" where
  "Command_create title command args =
     JObj ([(''title'', JStr title), (''command'', JStr command)]
           @ (if args \<noteq> [] then [(''arguments'', JArr args [])] else []))"

text \<open>
  The engine also receives the cancellation token, the progress reporter and two
  callbacks into the connection; what it does with them is its own affair.
\<close>

definition onExecuteCommand :: "Env \<Rightarrow> string \<Rightarrow> json list option \<Rightarrow> json nullable promise" where
  "onExecuteCommand env command arguments =
     (if command = executePluginCommand env then
        (case arguments of
           None \<Rightarrow> Inr Undefined
         | Some args \<Rightarrow>
             worker env (element args 0) (\<lambda>vueLs. doExecuteCommand vueLs command args))
      else if command = ''volar.server.convertTagNameCasing'' then
        (case arguments of
           None \<Rightarrow> Inr Undefined
         | Some args \<Rightarrow>
             worker env (element args 0) (\<lambda>vueLs.
               doExecuteCommand vueLs (executePluginCommand env)
                 [element args 0, JUndefined,
                  Command_create [] (convertTagNameCasingCommand env) [element args 0, element args 1]]))
      else Inr Undefined)"

text \<open>The body of the loop over the code actions in \<^verbatim>\<open>onCodeAction\<close>.\<close>

definition attach_uri :: "string \<Rightarrow> 'a Item_scheme \<Rightarrow> 'a Item_scheme promise" where
  "attach_uri u codeAction =
     (if truthy (data codeAction) \<and> typeof_object (data codeAction) then
        await (set_property (data codeAction) ''uri'' (JStr u)) (\<lambda>d. Inr (codeAction\<lparr>data := d\<rparr>))
      else Inr (codeAction\<lparr>data := JObj [(''uri'', JStr u)]\<rparr>))"

definition onCodeAction :: "Env \<Rightarrow> string \<Rightarrow> lsp_range \<Rightarrow> json \<Rightarrow> Item list nullable promise" where
  "onCodeAction env u rng ctx =
     worker env (JStr u) (\<lambda>vueLs.
       await (doCodeActions vueLs u rng ctx) (\<lambda>r.
         let codeActions = nullish_or r []
         in await (for_each (attach_uri u) codeActions) (\<lambda>as. Inr (Value as))))"

definition onCodeActionResolve :: "Env \<Rightarrow> Item \<Rightarrow> Item nullable promise" where
  "onCodeActionResolve env codeAction =
     (let u = get_optional (data codeAction) ''uri''
      in if \<not> truthy u then Inr (Value codeAction)
         else await (worker env u (\<lambda>vueLs. doCodeActionResolve vueLs codeAction))
                (\<lambda>r. Inr (Value (nullish_or r codeAction))))"

subsection \<open>Workspace symbols\<close>

text \<open>
  The cancellation token is read before each engine query, and the client may cancel
  between two reads: \<open>token k\<close> is what \<^verbatim>\<open>token.isCancellationRequested\<close> shows at the
  read that follows \<open>k\<close> queries. The loops return \<open>None\<close> for the \<^verbatim>\<open>return;\<close> that
  leaves the handler.
\<close>

fun projects_loop ::
  "(nat \<Rightarrow> bool) \<Rightarrow> string \<Rightarrow> Project promise list \<Rightarrow> nat \<times> json list \<Rightarrow> (nat \<times> json list) option promise"
where
  "projects_loop token query [] (k, results) = Inr (Some (k, results))"
| "projects_loop token query (project # ps) (k, results) =
     (if token k then Inr None
      else await project (\<lambda>p.
             await (findWorkspaceSymbols (project_getLanguageService p) query) (\<lambda>found.
               projects_loop token query ps (Suc k, results @ found))))"

definition projects_of :: "Workspace \<Rightarrow> Project promise list" where
  "projects_of workspace =
     (if workspace_projects workspace \<noteq> [] then workspace_projects workspace
      else [getInferredProject workspace])"

fun workspaces_loop ::
  "(nat \<Rightarrow> bool) \<Rightarrow> string \<Rightarrow> Workspace list \<Rightarrow> nat \<times> json list \<Rightarrow> (nat \<times> json list) option promise"
where
  "workspaces_loop token query [] st = Inr (Some st)"
| "workspaces_loop token query (workspace # ws) st =
     await (projects_loop token query (projects_of workspace) st) (\<lambda>r.
       case r of None \<Rightarrow> Inr None | Some st' \<Rightarrow> workspaces_loop token query ws st')"

definition onWorkspaceSymbol :: "Env \<Rightarrow> string \<Rightarrow> (nat \<Rightarrow> bool) \<Rightarrow> json list nullable promise" where
  "onWorkspaceSymbol env query token =
     await (workspaces_loop token query (workspaces env) (0, [])) (\<lambda>r.
       case r of None \<Rightarrow> Inr Undefined | Some (k, results) \<Rightarrow> Inr (Value results))"

text \<open>The engines the handler would query, in the order of the two loops.\<close>

definition all_projects :: "Env \<Rightarrow> Project promise list" where
  "all_projects env = concat (map projects_of (workspaces env))"

text \<open>The outcome of the \<open>j\<close>-th query, were it made.\<close>

definition query_outcome :: "Env \<Rightarrow> string \<Rightarrow> nat \<Rightarrow> json list promise" where
  "query_outcome env query j =
     await (all_projects env ! j) (\<lambda>p. findWorkspaceSymbols (project_getLanguageService p) query)"

subsection \<open>Call hierarchy\<close>

text \<open>The body of the loop over the items in \<^verbatim>\<open>callHierarchy.onPrepare\<close>.\<close>

definition attach_origin :: "string \<Rightarrow> CallHierarchyItem \<Rightarrow> CallHierarchyItem promise" where
  "attach_origin u item =
     (let d = (if \<not> typeof_object (data item) then JObj [] else data item)
      in await (set_property d ''__uri'' (JStr u)) (\<lambda>d'. Inr (item\<lparr>data := d'\<rparr>)))"

definition onPrepare :: "Env \<Rightarrow> string \<Rightarrow> position \<Rightarrow> CallHierarchyItem list nullable promise" where
  "onPrepare env u pos =
     await
       (worker env (JStr u) (\<lambda>vueLs.
          await (doPrepare (callHierarchy vueLs) u pos) (\<lambda>r.
            await (case r of
                     Value its \<Rightarrow> await (for_each (attach_origin u) its) (\<lambda>its'. Inr (Value its'))
                   | _ \<Rightarrow> Inr r)
              (\<lambda>r'. Inr (case r' of Value (i # its) \<Rightarrow> Value (i # its) | _ \<Rightarrow> Null)))))
       (\<lambda>r. Inr (Value (nullish_or r [])))"

text \<open>\<^verbatim>\<open>data?.__uri ?? handler.item.uri\<close>.\<close>

definition origin_of :: "CallHierarchyItem \<Rightarrow> json" where
  "origin_of item =
     (let own = get_optional (data item) ''__uri''
      in if own = JUndefined \<or> own = JNull then JStr (item_uri item) else own)"

definition onIncomingCalls :: "Env \<Rightarrow> CallHierarchyItem \<Rightarrow> json list nullable promise" where
  "onIncomingCalls env item =
     await (worker env (origin_of item) (\<lambda>vueLs. getIncomingCalls (callHierarchy vueLs) item))
       (\<lambda>r. Inr (Value (nullish_or r [])))"

definition onOutgoingCalls :: "Env \<Rightarrow> CallHierarchyItem \<Rightarrow> json list nullable promise" where
  "onOutgoingCalls env item =
     await (worker env (origin_of item) (\<lambda>vueLs. getOutgoingCalls (callHierarchy vueLs) item))
       (\<lambda>r. Inr (Value (nullish_or r [])))"

subsection \<open>Semantic tokens handlers\<close>

text \<open>
  The handler for the whole document (\<open>rng = None\<close>) and for a range. The result is the
  list of partial results reported to the client, when the client gave a progress
  reporter, and the response.
\<close>

definition onSemanticTokens ::
  "Env \<Rightarrow> string \<Rightarrow> lsp_range option \<Rightarrow> bool \<Rightarrow> (int list list \<times> int list) nullable promise"
where
  "onSemanticTokens env u rng resultProgress =
     await
       (worker env (JStr u) (\<lambda>vueLs.
          await (getSemanticTokens vueLs u rng) (\<lambda>(partials, r).
            let result = nullish_or r []
            in Inr (Value (if resultProgress then map buildTokens partials else [],
                           buildTokens result)))))
       (\<lambda>r. Inr (Value (nullish_or r ([], buildTokens []))))"

subsection \<open>Renamed files\<close>

definition endsWith :: "string \<Rightarrow> string \<Rightarrow> bool" where
  "endsWith s suffix =
     (length suffix \<le> length s \<and> drop (length s - length suffix) s = suffix)"

definition hasTsFile :: "FileRename list \<Rightarrow> bool" where
  "hasTsFile files =
     list_ex (\<lambda>file. endsWith (newUri file) ''.vue'' \<or> endsWith (newUri file) ''.ts''
                    \<or> endsWith (newUri file) ''.tsx'') files"

text \<open>The function mapped over \<^verbatim>\<open>handler.files\<close> in the inner \<^verbatim>\<open>worker\<close>.\<close>

definition file_edits :: "Env \<Rightarrow> FileRename \<Rightarrow> WorkspaceEdit nullable promise" where
  "file_edits env file =
     await (getLanguageService env (JStr (oldUri file))) (\<lambda>vueLs.
       case vueLs of
         Some ls \<Rightarrow> getEditsForFileRename ls (oldUri file) (newUri file)
       | None \<Rightarrow> Inr Undefined)"

text \<open>
  \<^verbatim>\<open>Promise.all\<close>: when every promise fulfils, the values in the order of the list;
  otherwise it rejects as soon as one of the promises rejects, with that rejection. The
  promises run side by side and which rejection comes first depends on when each
  settles, not on its place in the list: \<open>first\<close> chooses among the rejections (were it
  to name none of them, the first of the list is taken).
\<close>

fun rejections :: "'a promise list \<Rightarrow> error list" where
  "rejections [] = []"
| "rejections (Inl e # ps) = e # rejections ps"
| "rejections (Inr v # ps) = rejections ps"

fun fulfilments :: "'a promise list \<Rightarrow> 'a list" where
  "fulfilments [] = []"
| "fulfilments (Inl e # ps) = fulfilments ps"
| "fulfilments (Inr v # ps) = v # fulfilments ps"

definition Promise_all :: "(error list \<Rightarrow> error) \<Rightarrow> 'a promise list \<Rightarrow> 'a list promise" where
  "Promise_all first ps =
     (case rejections ps of
        [] \<Rightarrow> Inr (fulfilments ps)
      | e # es \<Rightarrow> Inl (if first (e # es) \<in> set (e # es) then first (e # es) else e))"

text \<open>\<^verbatim>\<open>.filter(shared.notEmpty)\<close>: drops \<^verbatim>\<open>null\<close> and \<^verbatim>\<open>undefined\<close>.\<close>

fun filter_notEmpty :: "'a nullable list \<Rightarrow> 'a list" where
  "filter_notEmpty [] = []"
| "filter_notEmpty (Value v # xs) = v # filter_notEmpty xs"
| "filter_notEmpty (x # xs) = filter_notEmpty xs"

text \<open>The inner \<^verbatim>\<open>worker\<close> of \<^verbatim>\<open>onWillRenameFiles\<close>: compute and merge.\<close>

definition rename_worker :: "Env \<Rightarrow> FileRename list \<Rightarrow> WorkspaceEdit nullable promise" where
  "rename_worker env files =
     await (Promise_all (settles_first env) (map (file_edits env) files)) (\<lambda>rs.
       case filter_notEmpty rs of
         result # others \<Rightarrow> Inr (Value (mergeWorkspaceEdits env result others))
       | [] \<Rightarrow> Inr Null)"

text \<open>
  The state shared with the other modules: the set of renamings in flight (a promise
  is known by its identity, a number here) and the cache of file contents; and what the
  client has been sent: the edits given to \<^verbatim>\<open>applyEdit\<close>, and the rejections nobody
  awaits.
\<close>

record State =
  fileRenamings :: "nat set"
  renameFileContentCache :: "string \<rightharpoonup> string"
  appliedEdits :: "WorkspaceEdit list"
  unhandledRejections :: "error list"

text \<open>The body of the first loop of the \<^verbatim>\<open>always\<close> branch; an empty text is falsy.\<close>

definition snapshot_file :: "Env \<Rightarrow> (string \<rightharpoonup> string) \<Rightarrow> FileRename \<Rightarrow> (string \<rightharpoonup> string)" where
  "snapshot_file env cache file =
     (case getScriptText env (oldUri file) of
        Some renameFileContent \<Rightarrow>
          if renameFileContent \<noteq> [] then cache(oldUri file \<mapsto> renameFileContent) else cache
      | None \<Rightarrow> cache)"

text \<open>The body of the loop over \<^verbatim>\<open>handler.files\<close> for one change.\<close>

fun rename_entry :: "Env \<Rightarrow> documentChange \<Rightarrow> FileRename \<Rightarrow> documentChange" where
  "rename_entry env (TextDocumentEdit textDocument edits) file =
     (if doc_uri textDocument = oldUri file then
        TextDocumentEdit
          (textDocument\<lparr>doc_uri := newUri file,
                        version := (case getDocumentVersion env (newUri file) of
                                      Some v \<Rightarrow> Some v
                                    | None \<Rightarrow> version textDocument)\<rparr>)
          edits
      else TextDocumentEdit textDocument edits)"
| "rename_entry env (ResourceOperation operation) file = ResourceOperation operation"

definition rewrite_change :: "Env \<Rightarrow> FileRename list \<Rightarrow> documentChange \<Rightarrow> documentChange" where
  "rewrite_change env files change = foldl (rename_entry env) change files"

definition rewrite_edit :: "Env \<Rightarrow> FileRename list \<Rightarrow> WorkspaceEdit \<Rightarrow> WorkspaceEdit" where
  "rewrite_edit env files edit =
     (case documentChanges edit of
        Some cs \<Rightarrow> edit\<lparr>documentChanges := Some (map (rewrite_change env files) cs)\<rparr>
      | None \<Rightarrow> edit)"

text \<open>
  The \<^verbatim>\<open>always\<close> branch up to the moment the handler returns: the executor of the new
  promise has filled the cache and waits in \<^verbatim>\<open>sleep(0)\<close>, and the promise, \<open>renaming\<close>,
  has been added to the set.
\<close>

definition renaming_started :: "Env \<Rightarrow> State \<Rightarrow> nat \<Rightarrow> FileRename list \<Rightarrow> State" where
  "renaming_started env s renaming files =
     s\<lparr>fileRenamings := insert renaming (fileRenamings s),
       renameFileContentCache := foldl (snapshot_file env) (renameFileContentCache s) files\<rparr>"

text \<open>
  The rest of the branch, run until nothing is left to run. When \<^verbatim>\<open>await worker()\<close>
  rejects, the executor ends there with a rejection that nobody awaits: \<^verbatim>\<open>resolve()\<close>
  is not reached, \<open>renaming\<close> stays pending, and the task that awaits it to delete it
  from the set and to clear the cache never continues. Otherwise the edit, if any, is
  rewritten and given to \<^verbatim>\<open>applyEdit\<close>, whose promise is not awaited, \<^verbatim>\<open>resolve()\<close> is
  called and the waiting task runs.
\<close>

definition renaming_settled :: "Env \<Rightarrow> State \<Rightarrow> nat \<Rightarrow> FileRename list \<Rightarrow> State" where
  "renaming_settled env s renaming files =
     (case rename_worker env files of
        Inl e \<Rightarrow> s\<lparr>unhandledRejections := unhandledRejections s @ [e]\<rparr>
      | Inr r \<Rightarrow>
          let s' = (case r of
                      Value edit \<Rightarrow>
                        let edit' = rewrite_edit env files edit
                        in s\<lparr>appliedEdits := appliedEdits s @ [edit'],
                             unhandledRejections :=
                               unhandledRejections s
                               @ (case applyEdit env edit' of Inl e \<Rightarrow> [e] | Inr ok \<Rightarrow> [])\<rparr>
                    | _ \<Rightarrow> s)
          in s'\<lparr>fileRenamings := fileRenamings s' - {renaming},
                renameFileContentCache := Map.empty\<rparr>)"

text \<open>The key of the policy the handler asks the client for.\<close>

definition configuration_key :: "FileRename list \<Rightarrow> string" where
  "configuration_key files =
     (if hasTsFile files then ''typescript.updateImportsOnFileMove.enabled''
      else ''javascript.updateImportsOnFileMove.enabled'')"

text \<open>The response of the handler and the state once the work it started has ended.\<close>

definition onWillRenameFiles ::
  "Env \<Rightarrow> State \<Rightarrow> nat \<Rightarrow> FileRename list \<Rightarrow> WorkspaceEdit nullable promise \<times> State"
where
  "onWillRenameFiles env s renaming files =
     (case getConfiguration env (configuration_key files) of
        Inl e \<Rightarrow> (Inl e, s)
      | Inr config \<Rightarrow>
          if config = Value ''always'' then
            (Inr Null, renaming_settled env (renaming_started env s renaming files) renaming files)
          else if config = Value ''prompt'' then (rename_worker env files, s)
          else (Inr Null, s))"

section \<open>Concrete collaborators\<close>

text \<open>An engine with nothing to say, and variations of it, to run the handlers on.\<close>

definition silent_hierarchy :: CallHierarchy where
  "silent_hierarchy =
     \<lparr>doPrepare = (\<lambda>u pos. Inr Undefined),
      getIncomingCalls = (\<lambda>item. Inr Undefined),
      getOutgoingCalls = (\<lambda>item. Inr Undefined)\<rparr>"

definition silent_engine :: LanguageService where
  "silent_engine =
     \<lparr>doComplete = (\<lambda>u pos ctx. Inr Undefined),
      doCompletionResolve = (\<lambda>item pos. Inr Undefined),
      doHover = (\<lambda>u pos. Inr Undefined),
      getSignatureHelp = (\<lambda>u pos ctx. Inr Undefined),
      prepareRename = (\<lambda>u pos. Inr Undefined),
      doRename = (\<lambda>u pos newName. Inr Undefined),
      doCodeLens = (\<lambda>u. Inr Undefined),
      doCodeLensResolve = (\<lambda>codeLens. Inr Undefined),
      doExecuteCommand = (\<lambda>command args. Inr Undefined),
      doCodeActions = (\<lambda>u rng ctx. Inr Undefined),
      doCodeActionResolve = (\<lambda>codeAction. Inr Undefined),
      findReferences = (\<lambda>u pos. Inr Undefined),
      findImplementations = (\<lambda>u pos. Inr Undefined),
      findDefinition = (\<lambda>u pos. Inr Undefined),
      findTypeDefinition = (\<lambda>u pos. Inr Undefined),
      findDocumentHighlights = (\<lambda>u pos. Inr Undefined),
      findDocumentLinks = (\<lambda>u. Inr Undefined),
      findWorkspaceSymbols = (\<lambda>query. Inr []),
      callHierarchy = silent_hierarchy,
      getSemanticTokens = (\<lambda>u rng. Inr ([], Undefined)),
      getInlayHints = (\<lambda>u rng. Inr Undefined),
      getEditsForFileRename = (\<lambda>old new. Inr Undefined),
      doAutoInsert = (\<lambda>u pos opts. Inr Undefined)\<rparr>"

text \<open>A merge to run the model with: the document changes of the edits, one after another.\<close>

definition append_documentChanges :: "WorkspaceEdit \<Rightarrow> WorkspaceEdit list \<Rightarrow> WorkspaceEdit" where
  "append_documentChanges result others =
     result\<lparr>documentChanges :=
       Some (concat (map (\<lambda>e. case documentChanges e of Some cs \<Rightarrow> cs | None \<Rightarrow> [])
                         (result # others)))\<rparr>"

text \<open>
  A server with no project at all and a client that declares nothing, answers every
  request and leaves the renaming policy unset. Of several rejections the last of the
  list settles first.
\<close>

definition empty_env :: Env where
  "empty_env =
     \<lparr>getProject = (\<lambda>u. Inr None),
      workspaces = [],
      insertReplaceSupport = None,
      getDocumentSelectionRequest = False,
      sendSelectionRequest = Inr Undefined,
      getConfiguration = (\<lambda>key. Inr Undefined),
      applyEdit = (\<lambda>edit. Inr ()),
      getScriptText = (\<lambda>u. None),
      getDocumentVersion = (\<lambda>u. None),
      mergeWorkspaceEdits = append_documentChanges,
      executePluginCommand = ''volar.executePluginCommand'',
      convertTagNameCasingCommand = ''volar.convertTagNameCasing'',
      settles_first = last\<rparr>"

text \<open>The same server with one project, found for every document.\<close>

definition env_with :: "LanguageService \<Rightarrow> Env" where
  "env_with ls =
     empty_env\<lparr>getProject := (\<lambda>u. Inr (Some \<lparr>project_getLanguageService = ls\<rparr>))\<rparr>"

definition initial_state :: State where
  "initial_state =
     \<lparr>fileRenamings = {}, renameFileContentCache = Map.empty, appliedEdits = [],
      unhandledRejections = []\<rparr>"

text \<open>A server whose resolver and whose client fail, and which asks for the selection.\<close>

definition failing_env :: Env where
  "failing_env =
     empty_env\<lparr>getProject := (\<lambda>u. Inl ResolverFailure),
               getDocumentSelectionRequest := True,
               sendSelectionRequest := Inl ClientFailure\<rparr>"

text \<open>A server with no project whose client answers the selection request.\<close>

definition selecting_env :: Env where
  "selecting_env =
     empty_env\<lparr>getDocumentSelectionRequest := True,
               sendSelectionRequest :=
                 Inr (Value \<lparr>sel_uri = ''file:///A.vue'', sel_position = (1, 1)\<rparr>)\<rparr>"

definition plain_item :: CompletionItem where
  "plain_item = \<lparr>rest = JStr ''label'', data = JObj [(''id'', JNum 7)], textEdit = None\<rparr>"

definition correlated_item :: CompletionItem where
  "correlated_item =
     \<lparr>rest = JStr ''label'', data = JObj [(''uri'', JStr ''file:///a.vue'')], textEdit = None\<rparr>"

definition insert_replace_item :: CompletionItem where
  "insert_replace_item =
     \<lparr>rest = JStr ''label'', data = JUndefined,
      textEdit = Some (InsertReplaceEdit ''text'' ((0, 0), (0, 2)) ((0, 0), (0, 5)))\<rparr>"

definition completing_engine :: LanguageService where
  "completing_engine =
     silent_engine\<lparr>doComplete := (\<lambda>u pos ctx.
        Inr (Value \<lparr>isIncomplete = False, items = [insert_replace_item, plain_item]\<rparr>))\<rparr>"

definition null_data_call :: CallHierarchyItem where
  "null_data_call = \<lparr>rest = JStr ''f'', data = JNull, item_uri = ''file:///lib.ts''\<rparr>"

definition null_data_action :: Item where
  "null_data_action = \<lparr>rest = JStr ''fix'', data = JNull\<rparr>"

text \<open>
  An engine that prepares the given call-hierarchy items and offers one code action
  whose data is \<^verbatim>\<open>null\<close>.
\<close>

definition preparing_engine :: "CallHierarchyItem list \<Rightarrow> LanguageService" where
  "preparing_engine its =
     silent_engine\<lparr>callHierarchy := silent_hierarchy\<lparr>doPrepare := (\<lambda>u pos. Inr (Value its))\<rparr>,
                   doCodeActions := (\<lambda>u rng ctx. Inr (Value [null_data_action]))\<rparr>"

definition finding_engine :: "json list \<Rightarrow> LanguageService" where
  "finding_engine found = silent_engine\<lparr>findWorkspaceSymbols := (\<lambda>query. Inr found)\<rparr>"

text \<open>
  Two workspaces: one with two projects, one with none, which falls back to its
  inferred project.
\<close>

definition two_workspaces_env :: Env where
  "two_workspaces_env =
     empty_env\<lparr>workspaces :=
       [\<lparr>workspace_projects =
           [Inr \<lparr>project_getLanguageService = finding_engine [JStr ''a'']\<rparr>,
            Inr \<lparr>project_getLanguageService = finding_engine [JStr ''b'']\<rparr>],
         getInferredProject = Inr \<lparr>project_getLanguageService = finding_engine [JStr ''unused'']\<rparr>\<rparr>,
        \<lparr>workspace_projects = [],
         getInferredProject = Inr \<lparr>project_getLanguageService = finding_engine [JStr ''c'']\<rparr>\<rparr>]\<rparr>"

text \<open>
  An engine whose edits for a renamed file depend on the old URI only, and a server that
  finds this engine for every document, whose client gives the policy \<open>policy\<close> for both
  keys and rejects \<^verbatim>\<open>applyEdit\<close>, and whose documents all have the text \<^verbatim>\<open>text\<close>; only
  \<^verbatim>\<open>file:///b.ts\<close> is open, at version 8.
\<close>

definition renaming_engine :: "(string \<Rightarrow> WorkspaceEdit nullable promise) \<Rightarrow> LanguageService" where
  "renaming_engine f = silent_engine\<lparr>getEditsForFileRename := (\<lambda>old new. f old)\<rparr>"

definition rename_env :: "string \<Rightarrow> (string \<Rightarrow> WorkspaceEdit nullable promise) \<Rightarrow> Env" where
  "rename_env policy f =
     (env_with (renaming_engine f))
       \<lparr>getConfiguration := (\<lambda>key. Inr (Value policy)),
        applyEdit := (\<lambda>edit. Inl ClientFailure),
        getScriptText := (\<lambda>u. Some ''text''),
        getDocumentVersion := (\<lambda>u. if u = ''file:///b.ts'' then Some 8 else None)\<rparr>"

text \<open>An edit with one text-document edit, of the document \<open>u\<close> at version 3, with no
  text edits in it.\<close>

definition edit_of :: "string \<Rightarrow> WorkspaceEdit" where
  "edit_of u =
     \<lparr>changes = JUndefined,
      documentChanges = Some [TextDocumentEdit \<lparr>doc_uri = u, version = Some 3\<rparr> (JArr [] [])]\<rparr>"

definition a_to_b :: FileRename where
  "a_to_b = \<lparr>oldUri = ''file:///a.ts'', newUri = ''file:///b.ts''\<rparr>"

definition b_to_c :: FileRename where
  "b_to_c = \<lparr>oldUri = ''file:///b.ts'', newUri = ''file:///c.ts''\<rparr>"

definition x_to_y :: FileRename where
  "x_to_y = \<lparr>oldUri = ''file:///x.ts'', newUri = ''file:///y.ts''\<rparr>"

text \<open>The engine fails for \<^verbatim>\<open>file:///a.ts\<close> and edits the renamed file otherwise.\<close>

definition fails_on_a :: "string \<Rightarrow> WorkspaceEdit nullable promise" where
  "fails_on_a old =
     (if old = ''file:///a.ts'' then Inl EngineFailure else Inr (Value (edit_of old)))"

text \<open>The engine edits \<^verbatim>\<open>file:///a.ts\<close> when it is renamed and has no edit otherwise.\<close>

definition edits_a_only :: "string \<Rightarrow> WorkspaceEdit nullable promise" where
  "edits_a_only old =
     (if old = ''file:///a.ts'' then Inr (Value (edit_of old)) else Inr Undefined)"

text \<open>
  The server \<open>rename_env policy fails_on_a\<close>, except that the lookup of the project of
  \<^verbatim>\<open>file:///x.ts\<close> fails. The lookup fails before any engine is asked, so of the two
  rejections of the batch \<^verbatim>\<open>a.ts\<close>, \<^verbatim>\<open>x.ts\<close> the second settles first.
\<close>

definition racing_env :: "string \<Rightarrow> Env" where
  "racing_env policy =
     (rename_env policy fails_on_a)
       \<lparr>getProject := (\<lambda>u. if u = JStr ''file:///x.ts'' then Inl ResolverFailure
                            else Inr (Some \<lparr>project_getLanguageService = renaming_engine fails_on_a\<rparr>)),
        settles_first := last\<rparr>"

text \<open>An item whose data holds a number under the \<^verbatim>\<open>uri\<close> key.\<close>

definition malformed_item :: CompletionItem where
  "malformed_item = \<lparr>rest = JStr ''label'', data = JObj [(''uri'', JNum 5)], textEdit = None\<rparr>"

section \<open>The token encoder\<close>

lemma compareTokens_le: "compareTokens a b \<le> 0 \<longleftrightarrow> token_key a \<le> token_key b"
  by (auto simp: compareTokens_def token_key_def less_eq_prod_def)

lemma insert_by_insort_key: "insert_by compareTokens x ys = insort_key token_key x ys"
  by (induction ys) (simp_all add: compareTokens_le)

lemma array_sort_sort_key: "array_sort compareTokens xs = sort_key token_key xs"
  by (induction xs) (simp_all add: insert_by_insort_key)

lemma filter_key_distinct:
  "distinct (map f xs) \<Longrightarrow> k \<in> set xs \<Longrightarrow> filter (\<lambda>x. f k = f x) xs = [k]"
proof (induction xs)
  case Nil
  then show ?case by simp
next
  case (Cons a xs)
  show ?case
  proof (cases "k = a")
    case True
    have "filter (\<lambda>x. f a = f x) xs = []"
      using Cons.prems(1) by (auto simp: filter_empty_conv)
    with True show ?thesis by simp
  next
    case False
    with Cons.prems have kin: "k \<in> set xs" by simp
    with Cons.prems(1) have "f k \<noteq> f a" by (auto simp: image_iff)
    with Cons.IH kin Cons.prems(1) show ?thesis by simp
  qed
qed

lemma sort_key_permutation:
  assumes "mset xs = mset ys" and "distinct (map f xs)"
  shows "sort_key f xs = sort_key f ys"
proof (rule properties_for_sort_key)
  show "mset (sort_key f ys) = mset xs" using assms(1) by simp
  show "sorted (map f (sort_key f ys))" by simp
  fix k assume "k \<in> set (sort_key f ys)"
  then have kys: "k \<in> set ys" by simp
  then have kxs: "k \<in> set xs" using assms(1) by (metis set_mset_mset)
  have "mset (map f xs) = mset (map f ys)" using assms(1) by simp
  then have dys: "distinct (map f ys)" using assms(2) by (metis mset_eq_imp_distinct_iff)
  have "filter (\<lambda>x. f k = f x) (sort_key f ys) = filter (\<lambda>x. f k = f x) ys"
    using sort_key_stable[of f "f k" ys] by (simp add: eq_commute)
  then show "filter (\<lambda>x. f k = f x) (sort_key f ys) = filter (\<lambda>x. f k = f x) xs"
    using filter_key_distinct[OF dys kys] filter_key_distinct[OF assms(2) kxs] by simp
qed

lemma push_encode:
  "dataLen b > 0 \<Longrightarrow>
   builder_data (foldl push b ts) = builder_data b @ delta_encode (prevLine b) (prevChar b) ts"
proof (induction ts arbitrary: b)
  case Nil
  then show ?case by simp
next
  case (Cons t ts)
  obtain l c len ty mods where t: "t = (l, c, len, ty, mods)" by (cases t) auto
  have "dataLen (push b t) > 0" by (simp add: t Let_def)
  from Cons.IH[OF this] Cons.prems show ?case by (simp add: t Let_def)
qed

lemma build_encode: "build (foldl push new_builder ts) = delta_encode 0 0 ts"
proof (cases ts)
  case Nil
  then show ?thesis by (simp add: build_def new_builder_def)
next
  case (Cons t ts')
  obtain l c len ty mods where t: "t = (l, c, len, ty, mods)" by (cases t) auto
  have "dataLen (push new_builder t) > 0" by (simp add: t Let_def)
  from push_encode[OF this, of ts'] show ?thesis
    by (simp add: Cons t build_def new_builder_def Let_def)
qed

lemma sorted_array_sort:
  "sorted_wrt (\<lambda>a b. tok_line a < tok_line b \<or> (tok_line a = tok_line b \<and> tok_char a \<le> tok_char b))
     (array_sort compareTokens xs)"
proof -
  have "sorted (map token_key (sort_key token_key xs))" by simp
  then have "sorted_wrt (\<lambda>a b. token_key a \<le> token_key b) (array_sort compareTokens xs)"
    by (simp add: array_sort_sort_key sorted_wrt_map)
  then show ?thesis
    by (rule sorted_wrt_mono_rel[rotated]) (auto simp: token_key_def less_eq_prod_def)
qed

text \<open>
  C4. \<open>buildTokens\<close> is deterministic: two permutations of the same tokens, whose
  (line, column) keys are pairwise distinct, are encoded to the same numbers. The output
  is the delta encoding of the tokens in their sorted order, a permutation of the input
  ascending by line and then by column. The two tokens \<open>(0,0,3,T,0)\<close> and \<open>(0,5,2,T,0)\<close>
  are encoded with line and column delta 0 for the first and line delta 0, column delta 5
  for the second.
\<close>

theorem buildTokens_deterministic:
  "(mset xs = mset ys \<longrightarrow> distinct (map token_key xs) \<longrightarrow> buildTokens xs = buildTokens ys)
   \<and> buildTokens xs = delta_encode 0 0 (array_sort compareTokens xs)
   \<and> mset (array_sort compareTokens xs) = mset xs
   \<and> sorted_wrt (\<lambda>a b. tok_line a < tok_line b \<or> (tok_line a = tok_line b \<and> tok_char a \<le> tok_char b))
        (array_sort compareTokens xs)
   \<and> buildTokens [(0, 0, 3, T, 0), (0, 5, 2, T, 0)] = [0, 0, 3, T, 0, 0, 5, 2, T, 0]"
proof (intro conjI impI)
  assume "mset xs = mset ys" and "distinct (map token_key xs)"
  then have "sort_key token_key xs = sort_key token_key ys"
    by (rule sort_key_permutation)
  then show "buildTokens xs = buildTokens ys"
    by (simp add: buildTokens_def array_sort_sort_key)
next
  show "buildTokens xs = delta_encode 0 0 (array_sort compareTokens xs)"
    by (simp add: buildTokens_def build_encode)
next
  show "mset (array_sort compareTokens xs) = mset xs"
    by (simp add: array_sort_sort_key)
next
  show "sorted_wrt (\<lambda>a b. tok_line a < tok_line b \<or> (tok_line a = tok_line b \<and> tok_char a \<le> tok_char b))
          (array_sort compareTokens xs)"
    by (rule sorted_array_sort)
next
  show "buildTokens [(0, 0, 3, T, 0), (0, 5, 2, T, 0)] = [0, 0, 3, T, 0, 0, 5, 2, T, 0]"
    by (simp add: buildTokens_def compareTokens_def tok_line_def tok_char_def build_def
          new_builder_def Let_def)
qed

theorem buildTokens_deterministic_witness:
  "mset [(1, 2, 1, 0, 0), (0, 5, 2, 7, 0), (0, 1, 3, 7, 1 :: int)]
     = mset [(0, 1, 3, 7, 1), (1, 2, 1, 0, 0), (0 :: int, 5 :: int, 2 :: int, 7 :: int, 0)]
   \<and> distinct (map token_key [(1, 2, 1, 0, 0), (0, 5, 2, 7, 0), (0, 1, 3, 7, 1)])
   \<and> buildTokens [(1, 2, 1, 0, 0), (0, 5, 2, 7, 0), (0, 1, 3, 7, 1)]
     = buildTokens [(0, 1, 3, 7, 1), (1, 2, 1, 0, 0), (0, 5, 2, 7, 0)]"
proof -
  have m: "mset [(1, 2, 1, 0, 0), (0, 5, 2, 7, 0), (0, 1, 3, 7, 1 :: int)]
     = mset [(0, 1, 3, 7, 1), (1, 2, 1, 0, 0), (0 :: int, 5 :: int, 2 :: int, 7 :: int, 0)]"
    by simp
  have d: "distinct (map token_key [(1, 2, 1, 0, 0), (0, 5, 2, 7, 0), (0, 1, 3, 7, 1)])"
    by (simp add: token_key_def tok_line_def tok_char_def)
  from m d buildTokens_deterministic
         [of "[(1, 2, 1, 0, 0), (0, 5, 2, 7, 0), (0, 1, 3, 7, 1)]"
             "[(0, 1, 3, 7, 1), (1, 2, 1, 0, 0), (0, 5, 2, 7, 0)]"]
  show ?thesis by blast
qed

section \<open>Dispatch\<close>

lemma worker_no_engine:
  "getLanguageService env u = Inr None \<Longrightarrow> worker env u cb = Inr Undefined"
  by (simp add: worker_def await_def)

lemma worker_engine:
  "getLanguageService env u = Inr (Some ls) \<Longrightarrow> worker env u cb = cb ls"
  by (simp add: worker_def await_def)

lemma getLanguageService_env_with: "getLanguageService (env_with ls) u = Inr (Some ls)"
  by (simp add: getLanguageService_def env_with_def empty_env_def await_def)

lemma buildTokens_Nil: "buildTokens [] = []"
  by (simp add: buildTokens_def build_def new_builder_def)

text \<open>
  C1, as the code has it. When the resolver yields no language service for the document,
  the dispatch function \<open>worker\<close> answers \<^verbatim>\<open>undefined\<close> whatever the capability, no
  handler raises, and: the handlers that only pass the request to the engine
  (completion, hover, signature help, prepare rename, rename, code lens, execute command,
  code action, references, implementation, definition, type definition, document
  highlight, document links, inlay hints, auto insert, and the edits for one renamed
  file) answer \<^verbatim>\<open>undefined\<close>; the three resolve handlers answer their input item (for
  completion resolve, provided the selection request to the client, when the feature asks
  for one, does not fail); the three call-hierarchy handlers answer an empty list; the two
  semantic-tokens handlers answer the encoding of the empty token list.
\<close>

theorem no_engine_responses:
  assumes none: "getLanguageService env (JStr u) = Inr None"
  shows
   "worker env (JStr u) cb = Inr Undefined
  \<and> onCompletion env u pos ctx = Inr Undefined
  \<and> onHover env u pos = Inr Undefined
  \<and> onSignatureHelp env u pos ctx = Inr Undefined
  \<and> onPrepareRename env u pos = Inr Undefined
  \<and> onRenameRequest env u pos newName = Inr Undefined
  \<and> onCodeLens env u = Inr Undefined
  \<and> onExecuteCommand env command None = Inr Undefined
  \<and> onExecuteCommand env command (Some (JStr u # args)) = Inr Undefined
  \<and> onCodeAction env u rng ctx = Inr Undefined
  \<and> onReferences env u pos = Inr Undefined
  \<and> onImplementation env u pos = Inr Undefined
  \<and> onDefinition env u pos = Inr Undefined
  \<and> onTypeDefinition env u pos = Inr Undefined
  \<and> onDocumentHighlight env u pos = Inr Undefined
  \<and> onDocumentLinks env u = Inr Undefined
  \<and> onInlayHint env u rng = Inr Undefined
  \<and> onAutoInsert env u pos opts = Inr Undefined
  \<and> file_edits env \<lparr>oldUri = u, newUri = new\<rparr> = Inr Undefined
  \<and> (get_optional (data item) ''uri'' = JStr u \<longrightarrow>
       (getDocumentSelectionRequest env \<longrightarrow> (\<exists>sel. sendSelectionRequest env = Inr sel)) \<longrightarrow>
       onCompletionResolve env item = Inr (Value item))
  \<and> (get_optional (data codeLens) ''uri'' = JStr u \<longrightarrow>
       onCodeLensResolve env codeLens = Inr (Value codeLens))
  \<and> (get_optional (data codeAction) ''uri'' = JStr u \<longrightarrow>
       onCodeActionResolve env codeAction = Inr (Value codeAction))
  \<and> onPrepare env u pos = Inr (Value [])
  \<and> (origin_of call = JStr u \<longrightarrow> onIncomingCalls env call = Inr (Value []))
  \<and> (origin_of call = JStr u \<longrightarrow> onOutgoingCalls env call = Inr (Value []))
  \<and> onSemanticTokens env u range_opt resultProgress = Inr (Value ([], buildTokens []))
  \<and> buildTokens [] = []"
proof -
  note w = worker_no_engine[OF none]
  have plain: "onCompletion env u pos ctx = Inr Undefined"
    "onHover env u pos = Inr Undefined"
    "onSignatureHelp env u pos ctx = Inr Undefined"
    "onPrepareRename env u pos = Inr Undefined"
    "onRenameRequest env u pos newName = Inr Undefined"
    "onCodeLens env u = Inr Undefined"
    "onCodeAction env u rng ctx = Inr Undefined"
    "onReferences env u pos = Inr Undefined"
    "onImplementation env u pos = Inr Undefined"
    "onDefinition env u pos = Inr Undefined"
    "onTypeDefinition env u pos = Inr Undefined"
    "onDocumentHighlight env u pos = Inr Undefined"
    "onDocumentLinks env u = Inr Undefined"
    "onInlayHint env u rng = Inr Undefined"
    "onAutoInsert env u pos opts = Inr Undefined"
    by (simp_all add: w onCompletion_def onHover_def onSignatureHelp_def onPrepareRename_def
      onRenameRequest_def onCodeLens_def onCodeAction_def onReferences_def onImplementation_def
      onDefinition_def onTypeDefinition_def onDocumentHighlight_def onDocumentLinks_def
      onInlayHint_def onAutoInsert_def)
  have exec: "onExecuteCommand env command None = Inr Undefined"
    "onExecuteCommand env command (Some (JStr u # args)) = Inr Undefined"
    by (simp_all add: onExecuteCommand_def w)
  have files: "file_edits env \<lparr>oldUri = u, newUri = new\<rparr> = Inr Undefined"
    by (simp add: file_edits_def none await_def)
  have resolve: "onCompletionResolve env item = Inr (Value item)"
    if "get_optional (data item) ''uri'' = JStr u"
      and "getDocumentSelectionRequest env \<longrightarrow> (\<exists>sel. sendSelectionRequest env = Inr sel)"
    using that by (auto simp: onCompletionResolve_def Let_def w await_def nullish_or_def)
  have lens: "onCodeLensResolve env codeLens = Inr (Value codeLens)"
    if "get_optional (data codeLens) ''uri'' = JStr u"
    using that by (simp add: onCodeLensResolve_def w await_def nullish_or_def)
  have action: "onCodeActionResolve env codeAction = Inr (Value codeAction)"
    if "get_optional (data codeAction) ''uri'' = JStr u"
    using that by (simp add: onCodeActionResolve_def w await_def nullish_or_def)
  have calls: "onPrepare env u pos = Inr (Value [])"
    "origin_of call = JStr u \<Longrightarrow> onIncomingCalls env call = Inr (Value [])"
    "origin_of call = JStr u \<Longrightarrow> onOutgoingCalls env call = Inr (Value [])"
    by (simp_all add: onPrepare_def onIncomingCalls_def onOutgoingCalls_def w await_def
      nullish_or_def)
  have sem: "onSemanticTokens env u range_opt resultProgress = Inr (Value ([], buildTokens []))"
    by (simp add: onSemanticTokens_def w await_def nullish_or_def)
  from w plain exec files resolve lens action calls sem buildTokens_Nil show ?thesis
    by (intro conjI impI) assumption+
qed

theorem no_engine_responses_witness:
  "getLanguageService selecting_env (JStr ''file:///a.vue'') = Inr None
   \<and> get_optional (data correlated_item) ''uri'' = JStr ''file:///a.vue''
   \<and> getDocumentSelectionRequest selecting_env
   \<and> (\<exists>sel. sendSelectionRequest selecting_env = Inr sel)
   \<and> worker selecting_env (JStr ''file:///a.vue'') (\<lambda>vueLs. doHover vueLs ''file:///a.vue'' (0, 0))
      = Inr Undefined
   \<and> onHover selecting_env ''file:///a.vue'' (0, 0) = Inr Undefined
   \<and> onCompletionResolve selecting_env correlated_item = Inr (Value correlated_item)
   \<and> onPrepare selecting_env ''file:///a.vue'' (0, 0) = Inr (Value [])
   \<and> onSemanticTokens selecting_env ''file:///a.vue'' None True = Inr (Value ([], []))"
proof -
  have a: "getLanguageService selecting_env (JStr ''file:///a.vue'') = Inr None"
    by (simp add: getLanguageService_def selecting_env_def empty_env_def await_def)
  have b: "get_optional (data correlated_item) ''uri'' = JStr ''file:///a.vue''"
    by (simp add: correlated_item_def)
  have c: "getDocumentSelectionRequest selecting_env"
    "\<exists>sel. sendSelectionRequest selecting_env = Inr sel"
    by (simp_all add: selecting_env_def)
  from a b c
    no_engine_responses[OF a, where pos = "(0, 0)" and item = correlated_item
      and range_opt = None and resultProgress = True
      and cb = "\<lambda>vueLs. doHover vueLs ''file:///a.vue'' (0, 0)"]
  show ?thesis by simp
qed

text \<open>
  With no language service for the document the semantic-tokens handler answers a value,
  the encoding of no token, where the hover handler answers \<^verbatim>\<open>undefined\<close>.
\<close>

theorem no_engine_absent_counterexample:
  "getLanguageService empty_env (JStr ''file:///a.vue'') = Inr None
   \<and> onSemanticTokens empty_env ''file:///a.vue'' None False = Inr (Value ([], []))
   \<and> onSemanticTokens empty_env ''file:///a.vue'' None False \<noteq> Inr Undefined
   \<and> onSemanticTokens empty_env ''file:///a.vue'' None False \<noteq> Inr Null"
  by (simp add: onSemanticTokens_def worker_def getLanguageService_def empty_env_def await_def
      nullish_or_def buildTokens_def build_def new_builder_def)

section \<open>Resolve requests\<close>

lemma no_uri_in_data:
  "d = JUndefined \<or> d = JNull \<or> d = JBool b \<or> d = JNum n \<or> d = JStr t
     \<or> (d = JObj ps \<and> lookup ps ''uri'' \<in> {JUndefined, JNull, JStr []})
   \<Longrightarrow> \<not> truthy (get_optional d ''uri'')"
  by auto

text \<open>
  C6, as the code has it. A resolve request (completion resolve, code-lens resolve,
  code-action resolve) whose item has no \<^verbatim>\<open>uri\<close> key to read in its data, or a falsy
  one (\<open>no_uri_in_data\<close> lists the cases), is answered with the input item unchanged
  and raises no error, whatever the resolver, the engines and the client do. The test
  is \<^verbatim>\<open>!uri\<close>: a \<^verbatim>\<open>uri\<close> key that holds a truthy value which is not a string passes
  it and is treated as a document identifier.
\<close>

theorem resolve_without_correlation:
  "(\<not> truthy (get_optional (data item) ''uri'') \<longrightarrow> onCompletionResolve env item = Inr (Value item))
   \<and> (\<not> truthy (get_optional (data codeLens) ''uri'') \<longrightarrow>
        onCodeLensResolve env codeLens = Inr (Value codeLens))
   \<and> (\<not> truthy (get_optional (data codeAction) ''uri'') \<longrightarrow>
        onCodeActionResolve env codeAction = Inr (Value codeAction))"
  by (simp add: onCompletionResolve_def onCodeLensResolve_def onCodeActionResolve_def)

theorem resolve_without_correlation_witness:
  "\<not> truthy (get_optional (data plain_item) ''uri'')
   \<and> onCompletionResolve failing_env plain_item = Inr (Value plain_item)
   \<and> \<not> truthy (get_optional (data null_data_action) ''uri'')
   \<and> onCodeLensResolve failing_env null_data_action = Inr (Value null_data_action)
   \<and> onCodeActionResolve failing_env null_data_action = Inr (Value null_data_action)"
proof -
  have a: "\<not> truthy (get_optional (data plain_item) ''uri'')"
    by (simp add: plain_item_def)
  have b: "\<not> truthy (get_optional (data null_data_action) ''uri'')"
    by (simp add: null_data_action_def)
  from a b resolve_without_correlation[of plain_item failing_env null_data_action null_data_action]
  show ?thesis by blast
qed

text \<open>
  The data of the item holds the number 5 under the \<^verbatim>\<open>uri\<close> key: no document
  identifier can be recovered from it, yet it is truthy, so the completion-resolve
  handler goes on and \<^verbatim>\<open>uri.toLowerCase()\<close> throws.
\<close>

theorem malformed_uri_counterexample:
  "get_optional (data malformed_item) ''uri'' = JNum 5
   \<and> onCompletionResolve empty_env malformed_item = Inl TypeError
   \<and> onCompletionResolve empty_env malformed_item \<noteq> Inr (Value malformed_item)"
  by (simp add: onCompletionResolve_def malformed_item_def empty_env_def await_def)

section \<open>The completion downgrade\<close>

lemma downgrade_items_map: "downgrade_items its = map replaceInsertEdit its"
  by (induction its) simp_all

text \<open>
  C8. When the client declared no insert/replace support (the capability is undeclared
  or false) and the engine returns a completion list, the handler answers a list with the
  same flag and as many items, each with the fields it had, except that a text edit which
  is an insert+replace pair has become the plain edit made of the insert range and the
  new text.
\<close>

theorem completion_downgrade:
  assumes "insertReplaceSupport env \<noteq> Some True"
      and "getLanguageService env (JStr u) = Inr (Some ls)"
      and "doComplete ls u pos ctx = Inr (Value list)"
  shows "\<exists>list'. onCompletion env u pos ctx = Inr (Value list')
           \<and> isIncomplete list' = isIncomplete list
           \<and> length (items list') = length (items list)
           \<and> (\<forall>i < length (items list).
                 rest (items list' ! i) = rest (items list ! i)
               \<and> data (items list' ! i) = data (items list ! i)
               \<and> textEdit (items list' ! i) =
                   (case textEdit (items list ! i) of
                      Some (InsertReplaceEdit newText ins rep) \<Rightarrow> Some (TextEdit ins newText)
                    | other \<Rightarrow> other))"
proof -
  have support: "(case insertReplaceSupport env of Some b \<Rightarrow> b | None \<Rightarrow> False) = False"
    using assms(1) by (cases "insertReplaceSupport env") auto
  have run: "onCompletion env u pos ctx
      = Inr (Value (list\<lparr>items := map replaceInsertEdit (items list)\<rparr>))"
    by (simp add: onCompletion_def worker_def await_def assms(2,3) support downgrade_items_map)
  have each: "rest (replaceInsertEdit x) = rest x \<and> data (replaceInsertEdit x) = data x
      \<and> textEdit (replaceInsertEdit x) =
          (case textEdit x of
             Some (InsertReplaceEdit newText ins rep) \<Rightarrow> Some (TextEdit ins newText)
           | other \<Rightarrow> other)" for x
    by (simp add: replaceInsertEdit_def split: option.splits edit.splits)
  show ?thesis
    unfolding run using each by simp
qed

theorem completion_downgrade_witness:
  "insertReplaceSupport (env_with completing_engine) \<noteq> Some True
   \<and> getLanguageService (env_with completing_engine) (JStr ''file:///a.vue'')
      = Inr (Some completing_engine)
   \<and> doComplete completing_engine ''file:///a.vue'' (0, 2) JNull
      = Inr (Value \<lparr>isIncomplete = False, items = [insert_replace_item, plain_item]\<rparr>)
   \<and> onCompletion (env_with completing_engine) ''file:///a.vue'' (0, 2) JNull
      = Inr (Value \<lparr>isIncomplete = False,
                    items = [insert_replace_item\<lparr>textEdit := Some (TextEdit ((0, 0), (0, 2)) ''text'')\<rparr>,
                             plain_item]\<rparr>)"
proof -
  have a: "insertReplaceSupport (env_with completing_engine) \<noteq> Some True"
    by (simp add: env_with_def empty_env_def)
  have b: "getLanguageService (env_with completing_engine) (JStr ''file:///a.vue'')
      = Inr (Some completing_engine)"
    by (rule getLanguageService_env_with)
  have c: "doComplete completing_engine ''file:///a.vue'' (0, 2) JNull
      = Inr (Value \<lparr>isIncomplete = False, items = [insert_replace_item, plain_item]\<rparr>)"
    by (simp add: completing_engine_def)
  from completion_downgrade[OF a b c] obtain list' where
    r: "onCompletion (env_with completing_engine) ''file:///a.vue'' (0, 2) JNull = Inr (Value list')"
    and i: "isIncomplete list' = False" and l: "length (items list') = 2"
    and e: "\<forall>i<2. rest (items list' ! i) = rest ([insert_replace_item, plain_item] ! i)
               \<and> data (items list' ! i) = data ([insert_replace_item, plain_item] ! i)
               \<and> textEdit (items list' ! i) =
                   (case textEdit ([insert_replace_item, plain_item] ! i) of
                      Some (InsertReplaceEdit newText ins rep) \<Rightarrow> Some (TextEdit ins newText)
                    | other \<Rightarrow> other)"
    by auto
  from l obtain x y where xy: "items list' = [x, y]"
    by (auto simp: length_Suc_conv numeral_2_eq_2)
  from e[rule_format, of 0]
  have x: "x = insert_replace_item\<lparr>textEdit := Some (TextEdit ((0, 0), (0, 2)) ''text'')\<rparr>"
    by (simp add: xy insert_replace_item_def)
  from e[rule_format, of 1] have y: "y = plain_item"
    by (simp add: xy plain_item_def)
  have "list' = \<lparr>isIncomplete = False,
                 items = [insert_replace_item\<lparr>textEdit := Some (TextEdit ((0, 0), (0, 2)) ''text'')\<rparr>,
                          plain_item]\<rparr>"
    using i xy x y by simp
  with a b c r show ?thesis by simp
qed

section \<open>Correlation\<close>

lemma lookup_assign: "lookup (assign ps k v) k' = (if k' = k then v else lookup ps k')"
  by (induction ps) auto

text \<open>
  Attaching in \<open>onCodeAction\<close>: whatever the data of the code action was, the \<^verbatim>\<open>uri\<close>
  key reads back as the document; the other keys of an object are kept.
\<close>

lemma attach_uri_roundtrip:
  "\<exists>a'. attach_uri u a = Inr a' \<and> get_optional (data a') ''uri'' = JStr u \<and> rest a' = rest a
     \<and> (\<forall>k. k \<noteq> ''uri'' \<longrightarrow> truthy (data a) \<longrightarrow> typeof_object (data a) \<longrightarrow>
            get_optional (data a') k = get_optional (data a) k)"
  by (cases "data a") (auto simp: attach_uri_def await_def lookup_assign)

text \<open>Attaching in \<open>onPrepare\<close>: the same, unless the data of the item is \<^verbatim>\<open>null\<close>.\<close>

lemma attach_origin_roundtrip:
  "data c \<noteq> JNull \<Longrightarrow>
   \<exists>c'. attach_origin u c = Inr c' \<and> origin_of c' = JStr u
     \<and> (\<forall>k. k \<noteq> ''__uri'' \<longrightarrow> typeof_object (data c) \<longrightarrow>
            get_optional (data c') k = get_optional (data c) k)"
  by (cases "data c") (auto simp: attach_origin_def origin_of_def await_def lookup_assign Let_def)

text \<open>
  C7 at a call-hierarchy item whose data is \<^verbatim>\<open>null\<close>: \<^verbatim>\<open>typeof null\<close> is
  \<^verbatim>\<open>'object'\<close>, so \<open>onPrepare\<close> keeps the data and the assignment of \<^verbatim>\<open>__uri\<close> to it
  throws; \<open>onCodeAction\<close>, which also tests that the data is truthy, replaces the
  \<^verbatim>\<open>null\<close> by an object holding the key.
\<close>

theorem attach_origin_null_data:
  "onPrepare (env_with (preparing_engine [null_data_call])) ''file:///a.ts'' (0, 0) = Inl TypeError
   \<and> onCodeAction (env_with (preparing_engine [null_data_call])) ''file:///a.ts'' ((0, 0), (0, 1)) JNull
      = Inr (Value [null_data_action\<lparr>data := JObj [(''uri'', JStr ''file:///a.ts'')]\<rparr>])"
  by (simp add: onPrepare_def onCodeAction_def worker_engine[OF getLanguageService_env_with]
      preparing_engine_def silent_hierarchy_def silent_engine_def null_data_call_def
      null_data_action_def attach_origin_def attach_uri_def await_def nullish_or_def)

section \<open>Fallbacks\<close>

text \<open>
  C10, as the code has it. When no engine resolves for the document, the semantic-tokens
  handlers (full and range) answer the encoding of the empty token list, which is the
  empty list of numbers, and the call-hierarchy prepare handler answers an empty list.
  A prepare that succeeds with zero items (or with no result) is answered with an empty
  list as well: the \<^verbatim>\<open>null\<close> of the callback meets the same \<^verbatim>\<open>?? []\<close>.
\<close>

theorem fallbacks_without_engine:
  "(getLanguageService env (JStr u) = Inr None \<longrightarrow>
      onSemanticTokens env u None resultProgress = Inr (Value ([], buildTokens []))
    \<and> onSemanticTokens env u (Some rng) resultProgress = Inr (Value ([], buildTokens []))
    \<and> onPrepare env u pos = Inr (Value []))
   \<and> buildTokens [] = []
   \<and> (getLanguageService env (JStr u) = Inr (Some ls) \<longrightarrow>
        doPrepare (callHierarchy ls) u pos \<in> {Inr (Value []), Inr Null, Inr Undefined} \<longrightarrow>
        onPrepare env u pos = Inr (Value []))"
proof (intro conjI impI)
  assume none: "getLanguageService env (JStr u) = Inr None"
  show "onSemanticTokens env u None resultProgress = Inr (Value ([], buildTokens []))"
    by (simp add: onSemanticTokens_def worker_no_engine[OF none] await_def nullish_or_def)
  show "onSemanticTokens env u (Some rng) resultProgress = Inr (Value ([], buildTokens []))"
    by (simp add: onSemanticTokens_def worker_no_engine[OF none] await_def nullish_or_def)
  show "onPrepare env u pos = Inr (Value [])"
    by (simp add: onPrepare_def worker_no_engine[OF none] await_def nullish_or_def)
next
  show "buildTokens [] = []"
    by (rule buildTokens_Nil)
next
  assume "getLanguageService env (JStr u) = Inr (Some ls)"
    and "doPrepare (callHierarchy ls) u pos \<in> {Inr (Value []), Inr Null, Inr Undefined}"
  then show "onPrepare env u pos = Inr (Value [])"
    by (auto simp: onPrepare_def worker_engine await_def nullish_or_def)
qed

theorem fallbacks_without_engine_witness:
  "getLanguageService empty_env (JStr ''file:///a.ts'') = Inr None
   \<and> onSemanticTokens empty_env ''file:///a.ts'' None True = Inr (Value ([], []))
   \<and> onSemanticTokens empty_env ''file:///a.ts'' (Some ((0, 0), (3, 0))) True = Inr (Value ([], []))
   \<and> onPrepare empty_env ''file:///a.ts'' (0, 0) = Inr (Value [])
   \<and> getLanguageService (env_with (preparing_engine [])) (JStr ''file:///a.ts'')
      = Inr (Some (preparing_engine []))
   \<and> doPrepare (callHierarchy (preparing_engine [])) ''file:///a.ts'' (0, 0) = Inr (Value [])
   \<and> onPrepare (env_with (preparing_engine [])) ''file:///a.ts'' (0, 0) = Inr (Value [])"
proof -
  have a: "getLanguageService empty_env (JStr ''file:///a.ts'') = Inr None"
    by (simp add: getLanguageService_def empty_env_def await_def)
  have b: "doPrepare (callHierarchy (preparing_engine [])) ''file:///a.ts'' (0, 0) = Inr (Value [])"
    by (simp add: preparing_engine_def silent_hierarchy_def silent_engine_def)
  note c = getLanguageService_env_with[of "preparing_engine []" "JStr ''file:///a.ts''"]
  from a b c
    fallbacks_without_engine[of empty_env "''file:///a.ts''" True "((0, 0), (3, 0))" "(0, 0)"]
    fallbacks_without_engine[of "env_with (preparing_engine [])" "''file:///a.ts''" True
      "((0, 0), (3, 0))" "(0, 0)" "preparing_engine []"]
  show ?thesis by simp
qed

text \<open>
  A prepare that succeeds with zero items: the handler answers the empty list, not
  \<^verbatim>\<open>null\<close>.
\<close>

theorem prepare_zero_items_counterexample:
  "getLanguageService (env_with (preparing_engine [])) (JStr ''file:///a.ts'')
      = Inr (Some (preparing_engine []))
   \<and> doPrepare (callHierarchy (preparing_engine [])) ''file:///a.ts'' (0, 0) = Inr (Value [])
   \<and> onPrepare (env_with (preparing_engine [])) ''file:///a.ts'' (0, 0) = Inr (Value [])
   \<and> onPrepare (env_with (preparing_engine [])) ''file:///a.ts'' (0, 0) \<noteq> Inr Null"
  by (simp add: onPrepare_def worker_engine[OF getLanguageService_env_with]
      getLanguageService_env_with preparing_engine_def silent_hierarchy_def silent_engine_def
      await_def nullish_or_def)

section \<open>Cancelling a workspace-symbol query\<close>

lemma projects_loop_append:
  "projects_loop token query (ps @ qs) st =
     await (projects_loop token query ps st) (\<lambda>r.
       case r of None \<Rightarrow> Inr None | Some st' \<Rightarrow> projects_loop token query qs st')"
proof (induction ps arbitrary: st)
  case Nil
  then show ?case by (cases st) (simp add: await_def)
next
  case (Cons p ps)
  obtain k results where st: "st = (k, results)" by (cases st)
  show ?case
    by (simp add: st Cons.IH await_def split: sum.splits)
qed

lemma workspaces_loop_flat:
  "workspaces_loop token query ws st = projects_loop token query (concat (map projects_of ws)) st"
proof (induction ws arbitrary: st)
  case Nil
  then show ?case by (cases st) simp
next
  case (Cons w ws)
  have "(\<lambda>r. case r of None \<Rightarrow> Inr None | Some st' \<Rightarrow> workspaces_loop token query ws st')
      = (\<lambda>r. case r of None \<Rightarrow> Inr None
              | Some st' \<Rightarrow> projects_loop token query (concat (map projects_of ws)) st')"
    by (simp add: Cons.IH fun_eq_iff split: option.splits)
  then show ?case
    by (simp add: projects_loop_append)
qed

lemma projects_loop_cancelled:
  assumes "k0 \<le> k" and "k < k0 + length ps" and "token k"
      and "\<forall>j. k0 \<le> j \<and> j < k \<longrightarrow> \<not> token j
             \<and> (\<exists>found. await (ps ! (j - k0))
                   (\<lambda>p. findWorkspaceSymbols (project_getLanguageService p) query) = Inr found)"
  shows "projects_loop token query ps (k0, results) = Inr None"
  using assms
proof (induction ps arbitrary: k0 results)
  case Nil
  then show ?case by simp
next
  case (Cons p ps)
  show ?case
  proof (cases "k = k0")
    case True
    with Cons.prems(3) show ?thesis by simp
  next
    case False
    with Cons.prems(1) have lt: "k0 < k" by simp
    with Cons.prems(4) have nt: "\<not> token k0"
      and "\<exists>found. await ((p # ps) ! (k0 - k0))
             (\<lambda>p. findWorkspaceSymbols (project_getLanguageService p) query) = Inr found"
      by auto
    then obtain found where
      f: "await p (\<lambda>p. findWorkspaceSymbols (project_getLanguageService p) query) = Inr found"
      by auto
    then obtain pr where p: "p = Inr pr"
      and fw: "findWorkspaceSymbols (project_getLanguageService pr) query = Inr found"
      by (cases p) (auto simp: await_def)
    have later: "\<forall>j. Suc k0 \<le> j \<and> j < k \<longrightarrow> \<not> token j
             \<and> (\<exists>found. await (ps ! (j - Suc k0))
                   (\<lambda>p. findWorkspaceSymbols (project_getLanguageService p) query) = Inr found)"
    proof (intro allI impI)
      fix j assume j: "Suc k0 \<le> j \<and> j < k"
      then have "k0 \<le> j \<and> j < k" by simp
      with Cons.prems(4) have "\<not> token j
        \<and> (\<exists>found. await ((p # ps) ! (j - k0))
              (\<lambda>p. findWorkspaceSymbols (project_getLanguageService p) query) = Inr found)"
        by blast
      moreover from j have "j - k0 = Suc (j - Suc k0)" by linarith
      ultimately show "\<not> token j
        \<and> (\<exists>found. await (ps ! (j - Suc k0))
              (\<lambda>p. findWorkspaceSymbols (project_getLanguageService p) query) = Inr found)"
        by simp
    qed
    have "projects_loop token query ps (Suc k0, results @ found) = Inr None"
      using lt Cons.prems(2,3) later by (intro Cons.IH) simp_all
    then show ?thesis
      using nt by (simp add: p fw await_def)
  qed
qed

text \<open>
  C5. If the handler reads the cancellation token as cancelled before an engine query
  (the \<open>k\<close>-th read is the first to show the cancellation, and the \<open>k\<close> queries made before
  it have succeeded), it answers \<^verbatim>\<open>undefined\<close>: nothing of what the earlier engines
  returned.
\<close>

theorem workspace_symbol_cancelled:
  assumes "k < length (all_projects env)"
      and "token k"
      and "\<forall>j<k. \<not> token j"
      and "\<forall>j<k. \<exists>found. query_outcome env query j = Inr found"
  shows "onWorkspaceSymbol env query token = Inr Undefined"
proof -
  have "projects_loop token query (all_projects env) (0, []) = Inr None"
    using assms by (intro projects_loop_cancelled[where k = k]) (simp_all add: query_outcome_def)
  then show ?thesis
    by (simp add: onWorkspaceSymbol_def workspaces_loop_flat all_projects_def await_def)
qed

theorem workspace_symbol_cancelled_witness:
  "(1::nat) < length (all_projects two_workspaces_env)
   \<and> query_outcome two_workspaces_env ''q'' 0 = Inr [JStr ''a'']
   \<and> onWorkspaceSymbol two_workspaces_env ''q'' (\<lambda>k. 1 \<le> k) = Inr Undefined
   \<and> onWorkspaceSymbol two_workspaces_env ''q'' (\<lambda>k. False)
      = Inr (Value [JStr ''a'', JStr ''b'', JStr ''c''])"
proof -
  have l: "(1::nat) < length (all_projects two_workspaces_env)"
    by (simp add: all_projects_def two_workspaces_env_def empty_env_def projects_of_def)
  have q: "query_outcome two_workspaces_env ''q'' 0 = Inr [JStr ''a'']"
    by (simp add: query_outcome_def all_projects_def two_workspaces_env_def empty_env_def
        projects_of_def await_def finding_engine_def silent_engine_def)
  then have qs: "\<forall>j<1. \<exists>found. query_outcome two_workspaces_env ''q'' j = Inr found"
    by simp
  have c: "onWorkspaceSymbol two_workspaces_env ''q'' (\<lambda>k. 1 \<le> k) = Inr Undefined"
    using workspace_symbol_cancelled[of 1 two_workspaces_env "\<lambda>k. 1 \<le> k" "''q''"] l qs by simp
  have f: "onWorkspaceSymbol two_workspaces_env ''q'' (\<lambda>k. False)
      = Inr (Value [JStr ''a'', JStr ''b'', JStr ''c''])"
    by (simp add: onWorkspaceSymbol_def two_workspaces_env_def empty_env_def
        projects_of_def await_def finding_engine_def silent_engine_def)
  from l q c f show ?thesis by blast
qed

section \<open>Renamed files: compute and merge\<close>

lemma rejections_append: "rejections (ps @ qs) = rejections ps @ rejections qs"
  by (induction ps rule: rejections.induct) simp_all

lemma fulfilments_append: "fulfilments (ps @ qs) = fulfilments ps @ fulfilments qs"
  by (induction ps rule: fulfilments.induct) simp_all

lemma set_rejections: "set (rejections ps) = {e. Inl e \<in> set ps}"
  by (induction ps rule: rejections.induct) auto

lemma rejections_fulfilled: "(\<forall>p \<in> set ps. \<exists>v. p = Inr v) \<Longrightarrow> rejections ps = []"
  by (induction ps rule: rejections.induct) auto

lemma Promise_all_rejects:
  "rejections ps \<noteq> [] \<Longrightarrow> \<exists>e. Promise_all first ps = Inl e \<and> Inl e \<in> set ps"
proof -
  assume "rejections ps \<noteq> []"
  then obtain e es where r: "rejections ps = e # es" by (cases "rejections ps") auto
  let ?c = "if first (e # es) \<in> set (e # es) then first (e # es) else e"
  have "?c \<in> set (rejections ps)" by (simp add: r)
  then have "Inl ?c \<in> set ps" by (simp add: set_rejections)
  moreover have "Promise_all first ps = Inl ?c" by (simp add: Promise_all_def r)
  ultimately show ?thesis by blast
qed


lemma filter_notEmpty_append:
  "filter_notEmpty (xs @ ys) = filter_notEmpty xs @ filter_notEmpty ys"
  by (induction xs rule: filter_notEmpty.induct) simp_all

lemma getLanguageService_rename_env:
  "getLanguageService (rename_env policy f) u = Inr (Some (renaming_engine f))"
  by (simp add: getLanguageService_def rename_env_def env_with_def empty_env_def await_def)

lemma file_edits_rename_env: "file_edits (rename_env policy f) file = f (oldUri file)"
  by (simp add: file_edits_def getLanguageService_rename_env await_def renaming_engine_def
      silent_engine_def)

lemma rename_env_fields:
  "mergeWorkspaceEdits (rename_env policy f) = append_documentChanges"
  "getConfiguration (rename_env policy f) key = Inr (Value policy)"
  "applyEdit (rename_env policy f) edit = Inl ClientFailure"
  "getScriptText (rename_env policy f) u = Some ''text''"
  "getDocumentVersion (rename_env policy f) u = (if u = ''file:///b.ts'' then Some 8 else None)"
  "settles_first (rename_env policy f) = last"
  by (simp_all add: rename_env_def env_with_def empty_env_def)

lemma file_edits_racing_env:
  "file_edits (racing_env policy) a_to_b = Inl EngineFailure"
  "file_edits (racing_env policy) x_to_y = Inl ResolverFailure"
  "settles_first (racing_env policy) = last"
  by (simp_all add: file_edits_def getLanguageService_def racing_env_def await_def a_to_b_def
      x_to_y_def renaming_engine_def silent_engine_def fails_on_a_def)

text \<open>
  C3, as the code has it. In compute-and-merge, a file whose engine has no edit (the
  computation returns \<^verbatim>\<open>undefined\<close> or \<^verbatim>\<open>null\<close>, or no engine resolves) contributes
  nothing: the result is that of the batch without the file. A computation that fails
  makes the whole compute-and-merge fail, since the results go through \<^verbatim>\<open>Promise.all\<close>
  and nothing catches: it fails with the rejection of one of the files of the batch, and
  with the error of this computation when no other file of the batch fails.
\<close>

theorem absent_edit_contributes_nothing:
  "(file_edits env file \<in> {Inr Undefined, Inr Null} \<longrightarrow>
      rename_worker env (pre @ file # post) = rename_worker env (pre @ post))
   \<and> (file_edits env file = Inl e \<longrightarrow>
        (\<exists>e'. rename_worker env (pre @ file # post) = Inl e'
           \<and> Inl e' \<in> file_edits env ` set (pre @ file # post)))
   \<and> (file_edits env file = Inl e \<longrightarrow> (\<forall>f \<in> set (pre @ post). \<exists>r. file_edits env f = Inr r) \<longrightarrow>
        rename_worker env (pre @ file # post) = Inl e)"
proof (intro conjI impI)
  assume "file_edits env file \<in> {Inr Undefined, Inr Null}"
  then obtain r where r: "file_edits env file = Inr r" and n: "r = Undefined \<or> r = Null"
    by auto
  have rej: "rejections (map (file_edits env) (pre @ file # post))
      = rejections (map (file_edits env) (pre @ post))"
    by (simp add: rejections_append r)
  have "fulfilments (map (file_edits env) (pre @ file # post))
      = fulfilments (map (file_edits env) pre) @ [r] @ fulfilments (map (file_edits env) post)"
    by (simp add: fulfilments_append r)
  then have ful: "filter_notEmpty (fulfilments (map (file_edits env) (pre @ file # post)))
      = filter_notEmpty (fulfilments (map (file_edits env) (pre @ post)))"
    using n by (auto simp: filter_notEmpty_append fulfilments_append)
  show "rename_worker env (pre @ file # post) = rename_worker env (pre @ post)"
    unfolding rename_worker_def Promise_all_def rej
    by (cases "rejections (map (file_edits env) (pre @ post))")
       (simp_all only: list.case await_def sum.case ful)
next
  assume f: "file_edits env file = Inl e"
  then have "rejections (map (file_edits env) (pre @ file # post)) \<noteq> []"
    by (simp add: rejections_append)
  from Promise_all_rejects[OF this, of "settles_first env"] obtain e' where
    "Promise_all (settles_first env) (map (file_edits env) (pre @ file # post)) = Inl e'"
    and "Inl e' \<in> set (map (file_edits env) (pre @ file # post))"
    by blast
  then show "\<exists>e'. rename_worker env (pre @ file # post) = Inl e'
           \<and> Inl e' \<in> file_edits env ` set (pre @ file # post)"
    by (auto simp: rename_worker_def await_def)
next
  assume f: "file_edits env file = Inl e"
    and ok: "\<forall>f \<in> set (pre @ post). \<exists>r. file_edits env f = Inr r"
  from ok have "\<forall>p \<in> set (map (file_edits env) pre). \<exists>v. p = Inr v"
    and "\<forall>p \<in> set (map (file_edits env) post). \<exists>v. p = Inr v"
    by auto
  then have "rejections (map (file_edits env) pre) = []"
    and "rejections (map (file_edits env) post) = []"
    by (simp_all only: rejections_fulfilled)
  then have "rejections (map (file_edits env) (pre @ file # post)) = [e]"
    by (simp add: rejections_append f)
  then show "rename_worker env (pre @ file # post) = Inl e"
    by (simp add: rename_worker_def Promise_all_def await_def)
qed

theorem absent_edit_contributes_nothing_witness:
  "file_edits (rename_env ''prompt'' edits_a_only) x_to_y \<in> {Inr Undefined, Inr Null}
   \<and> rename_worker (rename_env ''prompt'' edits_a_only) ([] @ x_to_y # [a_to_b])
      = Inr (Value (edit_of ''file:///a.ts''))
   \<and> file_edits (rename_env ''prompt'' fails_on_a) a_to_b = Inl EngineFailure
   \<and> file_edits (rename_env ''prompt'' fails_on_a) x_to_y = Inr (Value (edit_of ''file:///x.ts''))
   \<and> rename_worker (rename_env ''prompt'' fails_on_a) ([x_to_y] @ a_to_b # []) = Inl EngineFailure
   \<and> file_edits (racing_env ''prompt'') a_to_b = Inl EngineFailure
   \<and> file_edits (racing_env ''prompt'') x_to_y = Inl ResolverFailure
   \<and> (\<exists>e'. rename_worker (racing_env ''prompt'') ([] @ a_to_b # [x_to_y]) = Inl e'
         \<and> Inl e' \<in> file_edits (racing_env ''prompt'') ` set ([] @ a_to_b # [x_to_y]))"
proof -
  have a: "file_edits (rename_env ''prompt'' edits_a_only) x_to_y \<in> {Inr Undefined, Inr Null}"
    by (simp add: file_edits_rename_env edits_a_only_def x_to_y_def)
  have b: "rename_worker (rename_env ''prompt'' edits_a_only) ([] @ [a_to_b])
      = Inr (Value (edit_of ''file:///a.ts''))"
    by (simp add: rename_worker_def Promise_all_def file_edits_rename_env edits_a_only_def
        a_to_b_def await_def rename_env_fields append_documentChanges_def edit_of_def)
  have c: "file_edits (rename_env ''prompt'' fails_on_a) a_to_b = Inl EngineFailure"
    by (simp add: file_edits_rename_env fails_on_a_def a_to_b_def)
  have d1: "file_edits (rename_env ''prompt'' fails_on_a) x_to_y = Inr (Value (edit_of ''file:///x.ts''))"
    by (simp add: file_edits_rename_env fails_on_a_def x_to_y_def)
  then have d: "\<forall>f \<in> set ([x_to_y] @ []). \<exists>r. file_edits (rename_env ''prompt'' fails_on_a) f = Inr r"
    by simp
  note r = file_edits_racing_env[of "''prompt''"]
  have first: "rename_worker (rename_env ''prompt'' edits_a_only) ([] @ x_to_y # [a_to_b])
      = Inr (Value (edit_of ''file:///a.ts''))"
    using a b
      absent_edit_contributes_nothing[of "rename_env ''prompt'' edits_a_only" x_to_y "[]" "[a_to_b]"]
    by simp
  have third: "rename_worker (rename_env ''prompt'' fails_on_a) ([x_to_y] @ a_to_b # []) = Inl EngineFailure"
    using c d
      absent_edit_contributes_nothing[of "rename_env ''prompt'' fails_on_a" a_to_b "[x_to_y]" "[]"
        EngineFailure]
    by blast
  have second: "\<exists>e'. rename_worker (racing_env ''prompt'') ([] @ a_to_b # [x_to_y]) = Inl e'
         \<and> Inl e' \<in> file_edits (racing_env ''prompt'') ` set ([] @ a_to_b # [x_to_y])"
    using r(1)
      absent_edit_contributes_nothing[of "racing_env ''prompt''" a_to_b "[]" "[x_to_y]"
        EngineFailure]
    by blast
  from a first c d1 third r second show ?thesis by blast
qed

text \<open>
  One engine fails, the other has an edit: the batch fails, and so does the handler
  under the \<^verbatim>\<open>prompt\<close> policy; the edit of the other engine is not produced.
\<close>

theorem failing_engine_aborts_counterexample:
  "file_edits (rename_env ''prompt'' fails_on_a) a_to_b = Inl EngineFailure
   \<and> file_edits (rename_env ''prompt'' fails_on_a) x_to_y = Inr (Value (edit_of ''file:///x.ts''))
   \<and> rename_worker (rename_env ''prompt'' fails_on_a) [x_to_y] = Inr (Value (edit_of ''file:///x.ts''))
   \<and> rename_worker (rename_env ''prompt'' fails_on_a) [a_to_b, x_to_y] = Inl EngineFailure
   \<and> fst (onWillRenameFiles (rename_env ''prompt'' fails_on_a) initial_state 0 [a_to_b, x_to_y])
      = Inl EngineFailure"
  by (simp add: onWillRenameFiles_def rename_worker_def Promise_all_def file_edits_rename_env
      fails_on_a_def a_to_b_def x_to_y_def await_def rename_env_fields append_documentChanges_def
      edit_of_def)

text \<open>
  Two files of the batch fail, the engine for the first and the lookup of the project
  for the second: the batch fails with the rejection that settles first, here that of
  the second file.
\<close>

lemma racing_rejections:
  "rename_worker (racing_env ''prompt'') [a_to_b, x_to_y] = Inl ResolverFailure"
  by (simp add: rename_worker_def Promise_all_def file_edits_racing_env await_def)

section \<open>Renamed files: the renaming in flight\<close>





section \<open>Renamed files: rewriting the edit\<close>

lemma rename_entry_other:
  "doc_uri td \<notin> oldUri ` set files \<Longrightarrow>
   foldl (rename_entry env) (TextDocumentEdit td edits) files = TextDocumentEdit td edits"
  by (induction files) simp_all

lemma rename_entry_operation:
  "foldl (rename_entry env) (ResourceOperation operation) files = ResourceOperation operation"
  by (induction files) simp_all

lemma always_applies_rewritten:
  "getConfiguration env (configuration_key files) = Inr (Value ''always'') \<Longrightarrow>
   rename_worker env files = Inr (Value edit) \<Longrightarrow>
   appliedEdits (snd (onWillRenameFiles env s renaming files))
     = appliedEdits s @ [rewrite_edit env files edit]"
  by (simp add: onWillRenameFiles_def renaming_settled_def renaming_started_def Let_def)

lemma worker_edits_a_only:
  "rename_worker (rename_env policy edits_a_only) [a_to_b, b_to_c] = Inr (Value (edit_of ''file:///a.ts''))"
  "rename_worker (rename_env policy edits_a_only) [x_to_y, a_to_b] = Inr (Value (edit_of ''file:///a.ts''))"
  by (simp_all add: rename_worker_def Promise_all_def file_edits_rename_env edits_a_only_def a_to_b_def b_to_c_def
      x_to_y_def await_def rename_env_fields append_documentChanges_def edit_of_def)

lemma chained_change:
  "rewrite_change (rename_env policy f) [a_to_b, b_to_c]
     (TextDocumentEdit \<lparr>doc_uri = ''file:///a.ts'', version = Some 3\<rparr> (JArr [] []))
   = TextDocumentEdit \<lparr>doc_uri = ''file:///c.ts'', version = Some 8\<rparr> (JArr [] [])"
  by (simp add: rewrite_change_def a_to_b_def b_to_c_def rename_env_fields)

text \<open>
  C9, as the code has it. In the \<^verbatim>\<open>always\<close> path the edit given to \<^verbatim>\<open>applyEdit\<close> is
  the merged edit rewritten: its \<^verbatim>\<open>changes\<close> are untouched, its document changes are
  rewritten one by one, create, rename and delete operations are left as they are, and
  so is a text-document edit whose document is no old URI of the batch. A text-document
  edit whose document is an old URI of the batch gets the new URI of the first file with
  that old URI, and the version of the new document when it is retrievable, its own
  version otherwise, provided that new URI is not the old URI of a later file of the
  batch.
\<close>

theorem rename_rewrites_entries:
  "(getConfiguration env (configuration_key files) = Inr (Value ''always'') \<longrightarrow>
      rename_worker env files = Inr (Value edit) \<longrightarrow>
      appliedEdits (snd (onWillRenameFiles env s renaming files))
        = appliedEdits s @ [rewrite_edit env files edit])
   \<and> changes (rewrite_edit env files edit) = changes edit
   \<and> (documentChanges edit = None \<longrightarrow> documentChanges (rewrite_edit env files edit) = None)
   \<and> (documentChanges edit = Some cs \<longrightarrow>
        (\<exists>cs'. documentChanges (rewrite_edit env files edit) = Some cs' \<and> length cs' = length cs
           \<and> (\<forall>i < length cs. cs' ! i = rewrite_change env files (cs ! i))))
   \<and> rewrite_change env files (ResourceOperation operation) = ResourceOperation operation
   \<and> (doc_uri td \<notin> oldUri ` set files \<longrightarrow>
        rewrite_change env files (TextDocumentEdit td edits) = TextDocumentEdit td edits)
   \<and> (files = pre @ renamed # post \<longrightarrow> doc_uri td \<notin> oldUri ` set pre \<longrightarrow>
        doc_uri td = oldUri renamed \<longrightarrow> newUri renamed \<notin> oldUri ` set post \<longrightarrow>
        rewrite_change env files (TextDocumentEdit td edits)
          = TextDocumentEdit
              (td\<lparr>doc_uri := newUri renamed,
                  version := (case getDocumentVersion env (newUri renamed) of
                                Some v \<Rightarrow> Some v
                              | None \<Rightarrow> version td)\<rparr>)
              edits)"
proof (intro conjI impI)
  assume "getConfiguration env (configuration_key files) = Inr (Value ''always'')"
    and "rename_worker env files = Inr (Value edit)"
  then show "appliedEdits (snd (onWillRenameFiles env s renaming files))
        = appliedEdits s @ [rewrite_edit env files edit]"
    by (rule always_applies_rewritten)
next
  show "changes (rewrite_edit env files edit) = changes edit"
    by (simp add: rewrite_edit_def split: option.splits)
next
  assume "documentChanges edit = None"
  then show "documentChanges (rewrite_edit env files edit) = None"
    by (simp add: rewrite_edit_def)
next
  assume "documentChanges edit = Some cs"
  then show "\<exists>cs'. documentChanges (rewrite_edit env files edit) = Some cs' \<and> length cs' = length cs
           \<and> (\<forall>i < length cs. cs' ! i = rewrite_change env files (cs ! i))"
    by (simp add: rewrite_edit_def)
next
  show "rewrite_change env files (ResourceOperation operation) = ResourceOperation operation"
    by (simp add: rewrite_change_def rename_entry_operation)
next
  assume "doc_uri td \<notin> oldUri ` set files"
  then show "rewrite_change env files (TextDocumentEdit td edits) = TextDocumentEdit td edits"
    by (simp add: rewrite_change_def rename_entry_other)
next
  assume f: "files = pre @ renamed # post" and p: "doc_uri td \<notin> oldUri ` set pre"
    and m: "doc_uri td = oldUri renamed" and n: "newUri renamed \<notin> oldUri ` set post"
  let ?td' = "td\<lparr>doc_uri := newUri renamed,
                  version := (case getDocumentVersion env (newUri renamed) of
                                Some v \<Rightarrow> Some v
                              | None \<Rightarrow> version td)\<rparr>"
  from n have "doc_uri ?td' \<notin> oldUri ` set post" by simp
  then have "foldl (rename_entry env) (TextDocumentEdit ?td' edits) post = TextDocumentEdit ?td' edits"
    by (rule rename_entry_other)
  then show "rewrite_change env files (TextDocumentEdit td edits) = TextDocumentEdit ?td' edits"
    by (simp add: rewrite_change_def f rename_entry_other[OF p] m)
qed

theorem rename_rewrites_entries_witness:
  "getConfiguration (rename_env ''always'' edits_a_only) (configuration_key [x_to_y, a_to_b])
     = Inr (Value ''always'')
   \<and> rename_worker (rename_env ''always'' edits_a_only) [x_to_y, a_to_b]
       = Inr (Value (edit_of ''file:///a.ts''))
   \<and> ''file:///a.ts'' \<notin> oldUri ` set [x_to_y]
   \<and> ''file:///a.ts'' = oldUri a_to_b
   \<and> newUri a_to_b \<notin> oldUri ` set []
   \<and> appliedEdits (snd (onWillRenameFiles (rename_env ''always'' edits_a_only) initial_state 0
        [x_to_y, a_to_b]))
       = [rewrite_edit (rename_env ''always'' edits_a_only) [x_to_y, a_to_b] (edit_of ''file:///a.ts'')]
   \<and> rewrite_change (rename_env ''always'' edits_a_only) [x_to_y, a_to_b]
        (TextDocumentEdit \<lparr>doc_uri = ''file:///a.ts'', version = Some 3\<rparr> (JArr [] []))
       = TextDocumentEdit \<lparr>doc_uri = ''file:///b.ts'', version = Some 8\<rparr> (JArr [] [])"
proof -
  let ?env = "rename_env ''always'' edits_a_only"
  let ?td = "\<lparr>doc_uri = ''file:///a.ts'', version = Some 3\<rparr>"
  note claim = rename_rewrites_entries[of ?env "[x_to_y, a_to_b]" "edit_of ''file:///a.ts''"
      initial_state 0 _ _ ?td "JArr [] []" "[x_to_y]" a_to_b "[]"]
  have a: "getConfiguration ?env (configuration_key [x_to_y, a_to_b]) = Inr (Value ''always'')"
    by (simp add: rename_env_fields)
  note b = worker_edits_a_only(2)[of "''always''"]
  have d1: "''file:///a.ts'' \<notin> oldUri ` set [x_to_y]"
    by (simp add: x_to_y_def)
  have d2: "''file:///a.ts'' = oldUri a_to_b"
    by (simp add: a_to_b_def)
  have d3: "newUri a_to_b \<notin> oldUri ` set []"
    by simp
  have "appliedEdits (snd (onWillRenameFiles ?env initial_state 0 [x_to_y, a_to_b]))
       = appliedEdits initial_state @ [rewrite_edit ?env [x_to_y, a_to_b] (edit_of ''file:///a.ts'')]"
    using claim a b by blast
  then have e: "appliedEdits (snd (onWillRenameFiles ?env initial_state 0 [x_to_y, a_to_b]))
       = [rewrite_edit ?env [x_to_y, a_to_b] (edit_of ''file:///a.ts'')]"
    by (simp add: initial_state_def)
  have "rewrite_change ?env [x_to_y, a_to_b] (TextDocumentEdit ?td (JArr [] []))
       = TextDocumentEdit
              (?td\<lparr>doc_uri := newUri a_to_b,
                  version := (case getDocumentVersion ?env (newUri a_to_b) of
                                Some v \<Rightarrow> Some v
                              | None \<Rightarrow> version ?td)\<rparr>) (JArr [] [])"
    using claim d1 d2 d3 by simp
  then have f: "rewrite_change ?env [x_to_y, a_to_b] (TextDocumentEdit ?td (JArr [] []))
       = TextDocumentEdit \<lparr>doc_uri = ''file:///b.ts'', version = Some 8\<rparr> (JArr [] [])"
    by (simp add: rename_env_fields a_to_b_def)
  from a b d1 d2 d3 e f show ?thesis by blast
qed

text \<open>
  The batch renames \<^verbatim>\<open>a.ts\<close> to \<^verbatim>\<open>b.ts\<close> and \<^verbatim>\<open>b.ts\<close> to \<^verbatim>\<open>c.ts\<close>; the edit
  touches \<^verbatim>\<open>a.ts\<close>. The loop over the files rewrites the entry to \<^verbatim>\<open>b.ts\<close> and then,
  \<^verbatim>\<open>b.ts\<close> being an old URI too, to \<^verbatim>\<open>c.ts\<close>.
\<close>

theorem chained_renames_counterexample:
  "getConfiguration (rename_env ''always'' edits_a_only) (configuration_key [a_to_b, b_to_c])
     = Inr (Value ''always'')
   \<and> rename_worker (rename_env ''always'' edits_a_only) [a_to_b, b_to_c]
       = Inr (Value (edit_of ''file:///a.ts''))
   \<and> documentChanges (edit_of ''file:///a.ts'')
       = Some [TextDocumentEdit \<lparr>doc_uri = ''file:///a.ts'', version = Some 3\<rparr> (JArr [] [])]
   \<and> oldUri a_to_b = ''file:///a.ts'' \<and> newUri a_to_b = ''file:///b.ts''
   \<and> map documentChanges (appliedEdits (snd (onWillRenameFiles (rename_env ''always'' edits_a_only)
        initial_state 0 [a_to_b, b_to_c])))
       = [Some [TextDocumentEdit \<lparr>doc_uri = ''file:///c.ts'', version = Some 8\<rparr> (JArr [] [])]]"
proof -
  have a: "getConfiguration (rename_env ''always'' edits_a_only) (configuration_key [a_to_b, b_to_c])
     = Inr (Value ''always'')"
    by (simp add: rename_env_fields)
  note b = worker_edits_a_only(1)[of "''always''"]
  have c: "documentChanges (edit_of ''file:///a.ts'')
       = Some [TextDocumentEdit \<lparr>doc_uri = ''file:///a.ts'', version = Some 3\<rparr> (JArr [] [])]"
    by (simp add: edit_of_def)
  have d: "oldUri a_to_b = ''file:///a.ts'' \<and> newUri a_to_b = ''file:///b.ts''"
    by (simp add: a_to_b_def)
  have e: "documentChanges (rewrite_edit (rename_env ''always'' edits_a_only) [a_to_b, b_to_c]
              (edit_of ''file:///a.ts''))
       = Some [TextDocumentEdit \<lparr>doc_uri = ''file:///c.ts'', version = Some 8\<rparr> (JArr [] [])]"
    by (simp add: rewrite_edit_def c chained_change)
  from a b c d e always_applies_rewritten[OF a b, of initial_state 0]
  show ?thesis by (simp add: initial_state_def)
qed

end
